theory Spec2Isabelle
  imports Complex_Main
begin

section \<open>Media ingestion of the civic issue reporter\<close>

text \<open>
  The development embeds two functions of \<^verbatim>\<open>civilian/views.py\<close>: the duration prober
  \<^verbatim>\<open>_get_video_duration_seconds\<close> and the ingestion view \<^verbatim>\<open>report_issue\<close>, with the
  helper \<^verbatim>\<open>save_uploaded_file_temp\<close> and the columns of \<^verbatim>\<open>IssueReport\<close> from
  \<^verbatim>\<open>civilian/models.py\<close>.

  Conventions of the embedding.
  \<^item> A call that may raise returns a \<open>result\<close>: \<open>Raise e\<close> or \<open>Return v\<close>.
  \<^item> The libraries the code calls (moviepy, ffmpeg, cv2, the detector of
    \<^verbatim>\<open>ai.utils.detect\<close>, the database and the media storage) are parameters, collected
    in the record \<open>env\<close>.
  \<^item> The mutable surroundings (database table, live temporary files, the sequence of
    external calls made so far) are the record \<open>world\<close>, passed in and returned.
  \<^item> Python floats are read as real numbers: the code only compares durations with
    constants and divides once, and rounding is not modelled.
  \<^item> The text a user types into the form is a \<open>ustring\<close>, the list of its Unicode code
    points, so that \<^verbatim>\<open>str.strip\<close> removes every character Python counts as white space.
    File names, content types and paths, which the code only compares with ASCII
    constants, are \<open>string\<close>.
\<close>

subsection \<open>Results and exceptions\<close>

datatype exn =
    ImportError
  | KeyError
  | ValueError
  | IOError
  | LibraryError
  | DatabaseError

datatype 'a result = Raise exn | Return 'a

subsection \<open>Strings\<close>

type_synonym ustring = "nat list"

text \<open>The code points of a text written in ASCII.\<close>

definition ustr :: "string \<Rightarrow> ustring" where
  "ustr s = map of_char s"

text \<open>
  \<open>is_space n\<close> is \<^verbatim>\<open>chr(n).isspace()\<close>, the test \<^verbatim>\<open>str.strip()\<close> applies: the
  controls U+0009 to U+000D and U+001C to U+001F, the space, U+0085, U+00A0, U+1680,
  U+2000 to U+200A, U+2028, U+2029, U+202F, U+205F and U+3000.
\<close>

definition is_space :: "nat \<Rightarrow> bool" where
  "is_space n =
     ((9 \<le> n \<and> n \<le> 13) \<or> (28 \<le> n \<and> n \<le> 32) \<or> n = 133 \<or> n = 160 \<or> n = 5760
      \<or> (8192 \<le> n \<and> n \<le> 8202) \<or> n = 8232 \<or> n = 8233 \<or> n = 8239 \<or> n = 8287
      \<or> n = 12288)"

definition strip :: "ustring \<Rightarrow> ustring" where
  "strip s = rev (dropWhile is_space (rev (dropWhile is_space s)))"

definition startswith :: "string \<Rightarrow> string \<Rightarrow> bool" where
  "startswith s p = (take (length p) s = p)"

text \<open>\<open>contains sub s\<close> is Python's \<^verbatim>\<open>sub in s\<close> on strings.\<close>

fun contains :: "string \<Rightarrow> string \<Rightarrow> bool" where
  "contains sub [] = (sub = [])"
| "contains sub (c # cs) = (startswith (c # cs) sub \<or> contains sub cs)"

text \<open>
  \<open>splitext_ext p\<close> is \<^verbatim>\<open>os.path.splitext(p)[1]\<close>: the part of the last path component
  from its last dot on, where leading dots of the component do not count.
\<close>

definition splitext_ext :: "string \<Rightarrow> string" where
  "splitext_ext p =
     (let base = rev (takeWhile (\<lambda>c. c \<noteq> CHR ''/'') (rev p));
          stem = dropWhile (\<lambda>c. c = CHR ''.'') base
      in if CHR ''.'' \<in> set stem
         then CHR ''.'' # rev (takeWhile (\<lambda>c. c \<noteq> CHR ''.'') (rev stem))
         else [])"

subsection \<open>Uploads, temporary files and the world\<close>

text \<open>
  An upload of \<^verbatim>\<open>request.FILES\<close>: its name, declared content type (empty when the part
  declared none), size in bytes and the bytes that \<^verbatim>\<open>chunks()\<close> yields.
\<close>

record uploaded_file =
  name :: string
  content_type :: string
  size_bytes :: nat
  chunks :: string

text \<open>A temporary file is named by the serial number the system gave it and its suffix.\<close>

datatype tmp_path = TmpPath nat string

datatype strategy = MoviePy | FFmpeg | OpenCV | FileSize

text \<open>The arguments of one call of \<^verbatim>\<open>detect_pothole_severity\<close>.\<close>

record detect_call =
  file_path :: tmp_path
  file_data :: string
  model_path :: string
  output_folder :: string
  conf_threshold :: real

text \<open>The dictionary the detector returns.\<close>

record detection =
  boxes :: int
  severity :: string
  annotated_output :: string

datatype event =
    Attempt strategy
  | Classified detect_call "detection result"

text \<open>
  A row of the table behind \<^verbatim>\<open>IssueReport\<close>, with the columns of \<^verbatim>\<open>models.py\<close>
  (the two time stamps are left out). The file columns hold the name of the stored file.
\<close>

record issue_row =
  pk :: nat
  reporter :: "nat option"
  title :: ustring
  category :: ustring
  description :: ustring
  location :: ustring
  status :: string
  severity_col :: string
  image :: "string option"
  video :: "string option"

record world =
  db :: "issue_row list"
  next_pk :: nat
  tmpfiles :: "(tmp_path \<times> string) list"
  next_tmp :: nat
  trace :: "event list"

definition emit :: "event \<Rightarrow> world \<Rightarrow> world" where
  "emit e w = w\<lparr>trace := trace w @ [e]\<rparr>"

text \<open>
  \<^verbatim>\<open>NamedTemporaryFile(delete=False)\<close> followed by writing \<open>data\<close>: a new file that stays.
\<close>

definition mkstemp :: "string \<Rightarrow> string \<Rightarrow> world \<Rightarrow> tmp_path \<times> world" where
  "mkstemp suffix data w =
     (let p = TmpPath (next_tmp w) suffix
      in (p, w\<lparr>tmpfiles := (p, data) # tmpfiles w, next_tmp := Suc (next_tmp w)\<rparr>))"

definition unlink :: "tmp_path \<Rightarrow> string \<Rightarrow> world \<Rightarrow> world" where
  "unlink p data w = w\<lparr>tmpfiles := remove1 (p, data) (tmpfiles w)\<rparr>"

text \<open>
  \<^verbatim>\<open>with NamedTemporaryFile(delete=True, suffix=...) as tmp:\<close> the file is created and
  filled, the block \<open>k\<close> reads it, and leaving the block (normally or by an exception)
  deletes it.
\<close>

definition with_temp :: "string \<Rightarrow> string \<Rightarrow> (string \<Rightarrow> string \<Rightarrow> 'a) \<Rightarrow> world \<Rightarrow> 'a \<times> world" where
  "with_temp suffix data k w =
     (let (p, w1) = mkstemp suffix data w;
          r = k suffix data
      in (r, unlink p data w1))"

subsection \<open>The external libraries\<close>

record stream =
  codec_type :: "string option"
  duration :: "string option"

record capture =
  isOpened :: bool
  frame_count :: real
  fps :: real

record env =
  seek_ok :: "uploaded_file \<Rightarrow> bool"
  has_moviepy :: bool
  has_ffmpeg :: bool
  has_cv2 :: bool
  VideoFileClip :: "string \<Rightarrow> string \<Rightarrow> real option result"
  ffmpeg_probe :: "string \<Rightarrow> string \<Rightarrow> stream list result"
  float_of_str :: "string \<Rightarrow> real option"
  VideoCapture :: "string \<Rightarrow> string \<Rightarrow> capture result"
  detect_pothole_severity :: "detect_call \<Rightarrow> detection result"
  create_ok :: "issue_row \<Rightarrow> bool"
  storage_ok :: "uploaded_file \<Rightarrow> bool"

subsection \<open>The duration prober\<close>

text \<open>Lines 23 to 30: the suffix of the temporary copies.\<close>

definition file_extension :: "uploaded_file \<Rightarrow> string" where
  "file_extension f =
     (if content_type f \<noteq> [] then
        (if contains ''mp4'' (content_type f) then ''.mp4''
         else if contains ''webm'' (content_type f) then ''.webm''
         else if contains ''avi'' (content_type f) then ''.avi''
         else ''.webm'')
      else ''.webm'')"

text \<open>
  Each method below is the body of one \<^verbatim>\<open>try\<close> block; it returns the value the
  variable \<^verbatim>\<open>duration\<close> has when the block ends, or the exception that left it.
  A library that raises does so before \<^verbatim>\<open>duration\<close> is assigned.
\<close>

text \<open>Lines 44 to 47, on the temporary copy.\<close>

definition moviepy_block :: "env \<Rightarrow> string \<Rightarrow> string \<Rightarrow> real option result" where
  "moviepy_block E suffix data =
     (case VideoFileClip E suffix data of
        Raise e \<Rightarrow> Raise e
      | Return clip_duration \<Rightarrow>
          (case clip_duration of
             None \<Rightarrow> Return None
           | Some d \<Rightarrow> if d > 0 then Return (Some d) else Return None))"

definition method1 :: "env \<Rightarrow> uploaded_file \<Rightarrow> string \<Rightarrow> world \<Rightarrow> real option result \<times> world" where
  "method1 E f ext w =
     (if \<not> has_moviepy E then (Raise ImportError, w)
      else with_temp ext (chunks f) (moviepy_block E) w)"

text \<open>Line 63: the first stream whose \<^verbatim>\<open>codec_type\<close> is \<^verbatim>\<open>video\<close>.\<close>

fun first_video :: "stream list \<Rightarrow> stream option result" where
  "first_video [] = Return None"
| "first_video (s # ss) =
     (case codec_type s of
        None \<Rightarrow> Raise KeyError
      | Some t \<Rightarrow> if t = ''video'' then Return (Some s) else first_video ss)"

definition ffmpeg_block :: "env \<Rightarrow> string \<Rightarrow> string \<Rightarrow> real option result" where
  "ffmpeg_block E suffix data =
     (case ffmpeg_probe E suffix data of
        Raise e \<Rightarrow> Raise e
      | Return streams \<Rightarrow>
          (case first_video streams of
             Raise e \<Rightarrow> Raise e
           | Return None \<Rightarrow> Return None
           | Return (Some duration_info) \<Rightarrow>
               (case duration duration_info of
                  None \<Rightarrow> Return None
                | Some txt \<Rightarrow>
                    (case float_of_str E txt of
                       None \<Rightarrow> Raise ValueError
                     | Some d \<Rightarrow> Return (Some d)))))"

definition method2 :: "env \<Rightarrow> uploaded_file \<Rightarrow> string \<Rightarrow> world \<Rightarrow> real option result \<times> world" where
  "method2 E f ext w =
     (if \<not> has_ffmpeg E then (Raise ImportError, w)
      else with_temp ext (chunks f) (ffmpeg_block E) w)"

definition opencv_block :: "env \<Rightarrow> string \<Rightarrow> string \<Rightarrow> real option result" where
  "opencv_block E suffix data =
     (case VideoCapture E suffix data of
        Raise e \<Rightarrow> Raise e
      | Return cap \<Rightarrow>
          if isOpened cap then
            (if fps cap > 0 \<and> frame_count cap > 0
             then Return (Some (frame_count cap / fps cap))
             else Return None)
          else Return None)"

definition method3 :: "env \<Rightarrow> uploaded_file \<Rightarrow> string \<Rightarrow> world \<Rightarrow> real option result \<times> world" where
  "method3 E f ext w =
     (if \<not> has_cv2 E then (Raise ImportError, w)
      else with_temp ext (chunks f) (opencv_block E) w)"

definition method4 :: "uploaded_file \<Rightarrow> world \<Rightarrow> real option result \<times> world" where
  "method4 f w =
     (let file_size_mb = real (size_bytes f) / (1024 * 1024);
          estimated_duration = file_size_mb
      in if estimated_duration > 0 \<and> estimated_duration \<le> 10
         then (Return (Some estimated_duration), w)
         else (Return None, w))"

text \<open>
  \<^verbatim>\<open>try: ... except Exception\<close> around a method: an exception leaves \<^verbatim>\<open>duration\<close>
  as it was and the prober goes on.
\<close>

definition swallow :: "real option \<Rightarrow> real option result \<times> world \<Rightarrow> real option \<times> world" where
  "swallow d r = (case r of (Raise e, w) \<Rightarrow> (d, w) | (Return d', w) \<Rightarrow> (d', w))"

text \<open>Lines 16 to 107, the body of the outer \<^verbatim>\<open>try\<close>.\<close>

definition prober_body :: "env \<Rightarrow> uploaded_file \<Rightarrow> world \<Rightarrow> real option result \<times> world" where
  "prober_body E f w =
     (if \<not> seek_ok E f then (Raise IOError, w)
      else
        let ext = file_extension f;
            (d1, w1) = swallow None (method1 E f ext (emit (Attempt MoviePy) w));
            (d2, w2) = (if d1 = None
                        then swallow d1 (method2 E f ext (emit (Attempt FFmpeg) w1))
                        else (d1, w1));
            (d3, w3) = (if d2 = None
                        then swallow d2 (method3 E f ext (emit (Attempt OpenCV) w2))
                        else (d2, w2));
            (d4, w4) = (if d3 = None
                        then swallow d3 (method4 f (emit (Attempt FileSize) w3))
                        else (d3, w3))
        in (Return d4, w4))"

text \<open>Lines 109 to 111: whatever the body raises becomes \<^verbatim>\<open>None\<close>.\<close>

definition get_video_duration_seconds ::
  "env \<Rightarrow> uploaded_file \<Rightarrow> world \<Rightarrow> real option result \<times> world" where
  "get_video_duration_seconds E f w =
     (case prober_body E f w of
        (Raise e, w') \<Rightarrow> (Return None, w')
      | (Return d, w') \<Rightarrow> (Return d, w'))"

subsection \<open>The ingestion view\<close>

record request =
  http_method :: string
  POST :: "string \<rightharpoonup> ustring"
  FILES :: "string \<rightharpoonup> uploaded_file"
  user :: "nat option"

definition post_get :: "request \<Rightarrow> string \<Rightarrow> ustring" where
  "post_get request k = (case POST request k of None \<Rightarrow> [] | Some v \<Rightarrow> v)"

datatype error_msg =
    AllFieldsRequired
  | VideoTooLong real
  | InvalidImageType
  | InvalidVideoType
  | CreateFailed exn

datatype response =
    Render string "error_msg option"
  | Redirect string

text \<open>
  A stage of the view either ends the request (\<open>Done\<close>, with the response or the
  exception that leaves the view) or hands a value to the next stage.
\<close>

datatype 'a flow = Done "response result" | Next 'a

text \<open>Lines 245 to 256. The temporary file is created with \<^verbatim>\<open>delete=False\<close>.\<close>

definition save_uploaded_file_temp :: "uploaded_file \<Rightarrow> world \<Rightarrow> tmp_path \<times> world" where
  "save_uploaded_file_temp f w =
     (let extension = (if splitext_ext (name f) = [] then ''.tmp'' else splitext_ext (name f))
      in mkstemp extension (chunks f) w)"

text \<open>
  Lines 270 to 295: the upload that is classified, the call of the detector and the
  test on the number of boxes. Paths are written relative to the application directory.
\<close>

definition classify_media ::
  "env \<Rightarrow> uploaded_file option \<Rightarrow> uploaded_file option \<Rightarrow> world \<Rightarrow> detection flow \<times> world" where
  "classify_media E image_file video_file w =
     (case image_file of
        Some img \<Rightarrow>
          (let (temp_image_path, w1) = save_uploaded_file_temp img w;
               c = \<lparr>file_path = temp_image_path, file_data = chunks img,
                    model_path = ''../ai/utils/best.pt'',
                    output_folder = ''../media/issues/ann_images'',
                    conf_threshold = 0.5\<rparr>;
               r = detect_pothole_severity E c;
               w2 = emit (Classified c r) w1
           in case r of
                Raise e \<Rightarrow> (Done (Raise e), w2)
              | Return result \<Rightarrow>
                  if boxes result = 0
                  then (Done (Return (Redirect ''civilian_view_reports'')), w2)
                  else (Next result, w2))
      | None \<Rightarrow>
          (case video_file of
             Some vid \<Rightarrow>
               (let (temp_video_path, w1) = save_uploaded_file_temp vid w;
                    c = \<lparr>file_path = temp_video_path, file_data = chunks vid,
                         model_path = ''../ai/utils/best.pt'',
                         output_folder = ''../media/issues/ann_videos'',
                         conf_threshold = 0.5\<rparr>;
                    r = detect_pothole_severity E c;
                    w2 = emit (Classified c r) w1
                in case r of
                     Raise e \<Rightarrow> (Done (Raise e), w2)
                   | Return result \<Rightarrow>
                       if boxes result = 0
                       then (Done (Return (Redirect ''civilian_view_reports'')), w2)
                       else (Next result, w2))
           | None \<Rightarrow> (Done (Return (Redirect ''civilian_view_reports'')), w)))"

text \<open>Lines 307 to 321: the six second cap on a video.\<close>

definition validate_video :: "env \<Rightarrow> uploaded_file option \<Rightarrow> world \<Rightarrow> unit flow \<times> world" where
  "validate_video E video_file w =
     (case video_file of
        None \<Rightarrow> (Next (), w)
      | Some vid \<Rightarrow>
          (case get_video_duration_seconds E vid w of
             (Raise e, w1) \<Rightarrow> (Done (Raise e), w1)
           | (Return None, w1) \<Rightarrow> (Next (), w1)
           | (Return (Some d), w1) \<Rightarrow>
               if d > 6.0
               then (Done (Return (Render ''civilian/report_issue.html'' (Some (VideoTooLong d)))), w1)
               else (Next (), w1)))"

text \<open>
  The model instance in memory: the values of its columns and the further attributes
  that were assigned to the object.
\<close>

record issue_instance =
  columns :: issue_row
  attrs :: "string \<rightharpoonup> string"

text \<open>\<^verbatim>\<open>IssueReport.objects.create(...)\<close> inserts the row under a fresh key.\<close>

definition objects_create :: "env \<Rightarrow> issue_row \<Rightarrow> world \<Rightarrow> issue_instance result \<times> world" where
  "objects_create E r w =
     (let r' = r\<lparr>pk := next_pk w\<rparr>
      in if create_ok E r'
         then (Return \<lparr>columns = r', attrs = Map.empty\<rparr>,
               w\<lparr>db := db w @ [r'], next_pk := Suc (next_pk w)\<rparr>)
         else (Raise DatabaseError, w))"

definition column_names :: "string list" where
  "column_names = [''reporter'', ''title'', ''category'', ''description'', ''location'',
                   ''status'', ''severity'', ''image'', ''video'']"

definition set_column :: "string \<Rightarrow> issue_row \<Rightarrow> issue_row \<Rightarrow> issue_row" where
  "set_column c src dst =
     (if c = ''reporter'' then dst\<lparr>reporter := reporter src\<rparr>
      else if c = ''title'' then dst\<lparr>title := title src\<rparr>
      else if c = ''category'' then dst\<lparr>category := category src\<rparr>
      else if c = ''description'' then dst\<lparr>description := description src\<rparr>
      else if c = ''location'' then dst\<lparr>location := location src\<rparr>
      else if c = ''status'' then dst\<lparr>status := status src\<rparr>
      else if c = ''severity'' then dst\<lparr>severity_col := severity_col src\<rparr>
      else if c = ''image'' then dst\<lparr>image := image src\<rparr>
      else if c = ''video'' then dst\<lparr>video := video src\<rparr>
      else dst)"

text \<open>
  \<^verbatim>\<open>issue.save(update_fields=cols)\<close>: only the named columns of the stored row are
  written; a name that is no column of the model is refused.
\<close>

definition save_update_fields :: "issue_instance \<Rightarrow> string list \<Rightarrow> world \<Rightarrow> unit result \<times> world" where
  "save_update_fields issue cols w =
     (if \<not> list_all (\<lambda>c. c \<in> set column_names) cols then (Raise ValueError, w)
      else (Return (),
            w\<lparr>db := map (\<lambda>r. if pk r = pk (columns issue)
                               then foldr (\<lambda>c. set_column c (columns issue)) cols r
                               else r) (db w)\<rparr>))"

text \<open>Lines 336 to 345.\<close>

definition save_image ::
  "env \<Rightarrow> detection \<Rightarrow> uploaded_file option \<Rightarrow> issue_instance \<Rightarrow> world \<Rightarrow> issue_instance flow \<times> world" where
  "save_image E result image_file issue w =
     (case image_file of
        None \<Rightarrow> (Next issue, w)
      | Some img \<Rightarrow>
          if \<not> startswith (content_type img) ''image/''
          then (Done (Return (Render ''civilian/report_issue.html'' (Some InvalidImageType))), w)
          else
            let issue1 = issue\<lparr>columns := (columns issue)\<lparr>image := Some (''issues/images/'' @ name img)\<rparr>\<rparr>;
                issue2 = issue1\<lparr>attrs := (attrs issue1)(''annotated_image'' \<mapsto> annotated_output result)\<rparr>
            in if \<not> storage_ok E img then (Done (Raise IOError), w)
               else (case save_update_fields issue2 [''image''] w of
                       (Raise e, w1) \<Rightarrow> (Done (Raise e), w1)
                     | (Return u, w1) \<Rightarrow> (Next issue2, w1)))"

text \<open>Lines 348 to 357.\<close>

definition save_video ::
  "env \<Rightarrow> detection \<Rightarrow> uploaded_file option \<Rightarrow> issue_instance \<Rightarrow> world \<Rightarrow> issue_instance flow \<times> world" where
  "save_video E result video_file issue w =
     (case video_file of
        None \<Rightarrow> (Next issue, w)
      | Some vid \<Rightarrow>
          if \<not> startswith (content_type vid) ''video/''
          then (Done (Return (Render ''civilian/report_issue.html'' (Some InvalidVideoType))), w)
          else
            let issue1 = issue\<lparr>columns := (columns issue)\<lparr>video := Some (''issues/videos/'' @ name vid)\<rparr>\<rparr>;
                issue2 = issue1\<lparr>attrs := (attrs issue1)(''annotated_video'' \<mapsto> annotated_output result)\<rparr>
            in if \<not> storage_ok E vid then (Done (Raise IOError), w)
               else (case save_update_fields issue2 [''video''] w of
                       (Raise e, w1) \<Rightarrow> (Done (Raise e), w1)
                     | (Return u, w1) \<Rightarrow> (Next issue2, w1)))"

text \<open>Lines 326 to 360, the body of the \<^verbatim>\<open>try\<close>.\<close>

definition persist_body ::
  "env \<Rightarrow> request \<Rightarrow> ustring \<Rightarrow> ustring \<Rightarrow> ustring \<Rightarrow> ustring \<Rightarrow> detection \<Rightarrow>
   uploaded_file option \<Rightarrow> uploaded_file option \<Rightarrow> world \<Rightarrow> response result \<times> world" where
  "persist_body E request title' category' description' location' result image_file video_file w =
     (case objects_create E
             \<lparr>pk = 0, reporter = user request, title = title', category = category',
              description = description', location = location', status = ''pending'',
              severity_col = severity result, image = None, video = None\<rparr> w of
        (Raise e, w1) \<Rightarrow> (Raise e, w1)
      | (Return issue, w1) \<Rightarrow>
          (case save_image E result image_file issue w1 of
             (Done x, w2) \<Rightarrow> (x, w2)
           | (Next issue', w2) \<Rightarrow>
               (case save_video E result video_file issue' w2 of
                  (Done x, w3) \<Rightarrow> (x, w3)
                | (Next issue'', w3) \<Rightarrow> (Return (Redirect ''civilian_view_reports''), w3))))"

text \<open>Lines 323 to 364: an exception of the body is rendered as an error.\<close>

definition persist_report ::
  "env \<Rightarrow> request \<Rightarrow> ustring \<Rightarrow> ustring \<Rightarrow> ustring \<Rightarrow> ustring \<Rightarrow> detection \<Rightarrow>
   uploaded_file option \<Rightarrow> uploaded_file option \<Rightarrow> world \<Rightarrow> response result \<times> world" where
  "persist_report E request title' category' description' location' result image_file video_file w =
     (case persist_body E request title' category' description' location' result image_file video_file w of
        (Raise e, w1) \<Rightarrow> (Return (Render ''civilian/report_issue.html'' (Some (CreateFailed e))), w1)
      | (Return x, w1) \<Rightarrow> (Return x, w1))"

definition report_issue :: "env \<Rightarrow> request \<Rightarrow> world \<Rightarrow> response result \<times> world" where
  "report_issue E request w =
     (if http_method request = ''POST'' then
        (let title' = strip (post_get request ''title'');
             category' = strip (post_get request ''category'');
             description' = strip (post_get request ''description'');
             location' = strip (post_get request ''location'');
             image_file = FILES request ''image'';
             video_file = FILES request ''video''
         in if \<not> (title' \<noteq> [] \<and> category' \<noteq> [] \<and> description' \<noteq> [] \<and> location' \<noteq> [])
            then (Return (Render ''civilian/report_issue.html'' (Some AllFieldsRequired)), w)
            else
              (case classify_media E image_file video_file w of
                 (Done x, w1) \<Rightarrow> (x, w1)
               | (Next result, w1) \<Rightarrow>
                   (case validate_video E video_file w1 of
                      (Done x, w2) \<Rightarrow> (x, w2)
                    | (Next u, w2) \<Rightarrow>
                        persist_report E request title' category' description' location'
                          result image_file video_file w2)))
      else (Return (Render ''civilian/report_issue.html'' None), w))"

subsection \<open>Notions used to state the properties\<close>

text \<open>The external calls made between two worlds.\<close>

definition new_events :: "world \<Rightarrow> world \<Rightarrow> event list" where
  "new_events w w' = drop (length (trace w)) (trace w')"

subsection \<open>Notions used to state the properties of the prober\<close>

text \<open>
  What one strategy yields when it is run on its own in a world: the duration it
  assigns, or \<open>None\<close> when it assigns none or raises.
\<close>

fun run_alone :: "env \<Rightarrow> uploaded_file \<Rightarrow> world \<Rightarrow> strategy \<Rightarrow> real option" where
  "run_alone E f w MoviePy = fst (swallow None (method1 E f (file_extension f) w))"
| "run_alone E f w FFmpeg = fst (swallow None (method2 E f (file_extension f) w))"
| "run_alone E f w OpenCV = fst (swallow None (method3 E f (file_extension f) w))"
| "run_alone E f w FileSize = fst (swallow None (method4 f w))"

text \<open>The order in which the prober tries its strategies.\<close>

definition cascade_order :: "strategy list" where
  "cascade_order = [MoviePy, FFmpeg, OpenCV, FileSize]"

text \<open>
  The strategy list of the specification: the first duration in a list of outcomes.
\<close>

fun first_success :: "'a option list \<Rightarrow> 'a option" where
  "first_success [] = None"
| "first_success (None # xs) = first_success xs"
| "first_success (Some x # xs) = Some x"

subsection \<open>Notions used to state the properties of the view\<close>

text \<open>The four text fields of the form are non-empty once stripped (line 267).\<close>

definition fields_given :: "request \<Rightarrow> bool" where
  "fields_given request =
     (strip (post_get request ''title'') \<noteq> [] \<and> strip (post_get request ''category'') \<noteq> []
      \<and> strip (post_get request ''description'') \<noteq> [] \<and> strip (post_get request ''location'') \<noteq> [])"

text \<open>
  The upload the view classifies: the image when there is one, else the video.
\<close>

definition attached :: "request \<Rightarrow> uploaded_file \<Rightarrow> bool" where
  "attached request f =
     (FILES request ''image'' = Some f
      \<or> (FILES request ''image'' = None \<and> FILES request ''video'' = Some f))"

text \<open>
  The same libraries, with a detector that reports the path \<open>p\<close> as its annotated
  output and is otherwise unchanged.
\<close>

definition relabel :: "string \<Rightarrow> env \<Rightarrow> env" where
  "relabel p E = E\<lparr>detect_pothole_severity :=
     (\<lambda>c. case detect_pothole_severity E c of
             Raise e \<Rightarrow> Raise e
           | Return r \<Rightarrow> Return (r\<lparr>annotated_output := p\<rparr>))\<rparr>"

text \<open>
  Two outcomes of a stage agree up to what the database cannot see: the attributes of
  the instance in memory, and the fields of the detection other than the severity.
\<close>

fun same_columns :: "issue_instance flow \<Rightarrow> issue_instance flow \<Rightarrow> bool" where
  "same_columns (Done a) (Done b) = (a = b)"
| "same_columns (Next x) (Next y) = (columns x = columns y)"
| "same_columns (Done a) (Next y) = False"
| "same_columns (Next x) (Done b) = False"

fun same_severity :: "detection flow \<Rightarrow> detection flow \<Rightarrow> bool" where
  "same_severity (Done a) (Done b) = (a = b)"
| "same_severity (Next x) (Next y) = (severity x = severity y)"
| "same_severity (Done a) (Next y) = False"
| "same_severity (Next x) (Done b) = False"

subsection \<open>Sample inputs\<close>

text \<open>
  Concrete uploads, libraries and a starting world, on which the theorems below are
  instantiated.
\<close>

definition sample_world :: world where
  "sample_world = \<lparr>db = [], next_pk = 1, tmpfiles = [], next_tmp = 0, trace = []\<rparr>"

definition sample_env :: "real option result \<Rightarrow> stream list result \<Rightarrow> capture result \<Rightarrow> detection result \<Rightarrow> env" where
  "sample_env clip_result probe_result capture_result detector_result =
     \<lparr>seek_ok = (\<lambda>f. True), has_moviepy = True, has_ffmpeg = True, has_cv2 = True,
      VideoFileClip = (\<lambda>suffix data. clip_result),
      ffmpeg_probe = (\<lambda>suffix data. probe_result),
      float_of_str = (\<lambda>txt. if txt = ''3.5'' then Some 3.5 else if txt = ''7.25'' then Some 7.25 else None),
      VideoCapture = (\<lambda>suffix data. capture_result),
      detect_pothole_severity = (\<lambda>c. detector_result),
      create_ok = (\<lambda>r. True), storage_ok = (\<lambda>f. True)\<rparr>"

definition sample_clip :: uploaded_file where
  "sample_clip = \<lparr>name = ''hole.mp4'', content_type = ''video/mp4'', size_bytes = 2097152, chunks = ''MPEG''\<rparr>"

definition sample_blob :: uploaded_file where
  "sample_blob = \<lparr>name = ''noise.bin'', content_type = [], size_bytes = 0, chunks = []\<rparr>"

definition sample_film :: uploaded_file where
  "sample_film = \<lparr>name = ''parade.avi'', content_type = ''video/avi'', size_bytes = 20971520, chunks = ''RIFF''\<rparr>"

definition sample_form :: "string \<rightharpoonup> ustring" where
  "sample_form = [''title'' \<mapsto> ustr ''Pothole'', ''category'' \<mapsto> ustr ''pothole'',
                  ''description'' \<mapsto> ustr ''Deep hole'', ''location'' \<mapsto> ustr '' Main Road '']"

definition sample_photo :: uploaded_file where
  "sample_photo = \<lparr>name = ''hole.jpg'', content_type = ''image/jpeg'', size_bytes = 4, chunks = ''JPEG''\<rparr>"

definition sample_scan :: uploaded_file where
  "sample_scan = \<lparr>name = ''hole.pdf'', content_type = ''application/pdf'', size_bytes = 4, chunks = ''%PDF''\<rparr>"

definition sample_post :: "(string \<rightharpoonup> uploaded_file) \<Rightarrow> request" where
  "sample_post files = \<lparr>http_method = ''POST'', POST = sample_form, FILES = files, user = Some 7\<rparr>"

text \<open>A POST without uploads whose title is \<open>t\<close>; the other three fields are filled.\<close>

definition sample_titled_post :: "ustring \<Rightarrow> request" where
  "sample_titled_post t =
     \<lparr>http_method = ''POST'', POST = sample_form(''title'' \<mapsto> t), FILES = Map.empty, user = Some 7\<rparr>"

definition sample_hit :: detection where
  "sample_hit = \<lparr>boxes = 2, severity = ''medium'', annotated_output = ''ann_images/hole_out.jpg''\<rparr>"

definition sample_miss :: detection where
  "sample_miss = \<lparr>boxes = 0, severity = ''low'', annotated_output = ''ann_images/hole_out.jpg''\<rparr>"

section \<open>Properties of the duration prober\<close>

subsection \<open>Effects of the methods\<close>

lemma with_temp_eq: "with_temp s d k w = (k s d, w\<lparr>next_tmp := Suc (next_tmp w)\<rparr>)"
  by (simp add: with_temp_def mkstemp_def unlink_def Let_def)

lemma swallow_fst: "fst (swallow d x) = (case fst x of Raise e \<Rightarrow> d | Return d' \<Rightarrow> d')"
  by (simp add: swallow_def split: result.splits prod.splits)

lemma swallow_snd: "snd (swallow d x) = snd x"
  by (simp add: swallow_def split: result.splits prod.splits)

lemma method1_fst: "fst (method1 E f ext w) = (if has_moviepy E then moviepy_block E ext (chunks f) else Raise ImportError)"
  by (simp add: method1_def with_temp_eq)

lemma method1_snd: "snd (method1 E f ext w) = w\<lparr>next_tmp := (if has_moviepy E then Suc (next_tmp w) else next_tmp w)\<rparr>"
  by (simp add: method1_def with_temp_eq)

lemma method2_fst: "fst (method2 E f ext w) = (if has_ffmpeg E then ffmpeg_block E ext (chunks f) else Raise ImportError)"
  by (simp add: method2_def with_temp_eq)

lemma method2_snd: "snd (method2 E f ext w) = w\<lparr>next_tmp := (if has_ffmpeg E then Suc (next_tmp w) else next_tmp w)\<rparr>"
  by (simp add: method2_def with_temp_eq)

lemma method3_fst: "fst (method3 E f ext w) = (if has_cv2 E then opencv_block E ext (chunks f) else Raise ImportError)"
  by (simp add: method3_def with_temp_eq)

lemma method3_snd: "snd (method3 E f ext w) = w\<lparr>next_tmp := (if has_cv2 E then Suc (next_tmp w) else next_tmp w)\<rparr>"
  by (simp add: method3_def with_temp_eq)

lemma method4_snd: "snd (method4 f w) = w"
  by (simp add: method4_def Let_def)

lemma method4_fst_indep: "fst (method4 f w) = fst (method4 f w')"
  by (simp add: method4_def Let_def)

text \<open>What a method yields does not depend on the world it runs in.\<close>

lemma run_alone_indep: "run_alone E f w s = run_alone E f w' s"
  by (cases s) (simp_all add: swallow_fst method1_fst method2_fst method3_fst method4_fst_indep [of f w w'])

text \<open>
  One attempt: the entry of the method is recorded, then it runs; only the serial counter
  of temporary files and the trace move.
\<close>

lemma attempt1:
  "swallow None (method1 E f (file_extension f) (emit (Attempt MoviePy) w)) =
     (run_alone E f w0 MoviePy, w\<lparr>next_tmp := (if has_moviepy E then Suc (next_tmp w) else next_tmp w), trace := trace w @ [Attempt MoviePy]\<rparr>)"
  by (simp add: swallow_def method1_def with_temp_eq emit_def split: result.splits)

lemma attempt2:
  "swallow None (method2 E f (file_extension f) (emit (Attempt FFmpeg) w)) =
     (run_alone E f w0 FFmpeg, w\<lparr>next_tmp := (if has_ffmpeg E then Suc (next_tmp w) else next_tmp w), trace := trace w @ [Attempt FFmpeg]\<rparr>)"
  by (simp add: swallow_def method2_def with_temp_eq emit_def split: result.splits)

lemma attempt3:
  "swallow None (method3 E f (file_extension f) (emit (Attempt OpenCV) w)) =
     (run_alone E f w0 OpenCV, w\<lparr>next_tmp := (if has_cv2 E then Suc (next_tmp w) else next_tmp w), trace := trace w @ [Attempt OpenCV]\<rparr>)"
  by (simp add: swallow_def method3_def with_temp_eq emit_def split: result.splits)

lemma attempt4:
  "swallow None (method4 f (emit (Attempt FileSize) w)) =
     (run_alone E f w0 FileSize, w\<lparr>trace := trace w @ [Attempt FileSize]\<rparr>)"
  by (simp add: swallow_def method4_def emit_def Let_def split: result.splits)

lemma prober_body_seek:
  assumes "seek_ok E f"
  shows "fst (prober_body E f w) =
           Return (case run_alone E f w MoviePy of Some d \<Rightarrow> Some d | None \<Rightarrow>
                   (case run_alone E f w FFmpeg of Some d \<Rightarrow> Some d | None \<Rightarrow>
                   (case run_alone E f w OpenCV of Some d \<Rightarrow> Some d | None \<Rightarrow>
                    run_alone E f w FileSize)))"
  using assms
  by (simp add: prober_body_def Let_def attempt1 [where ?w0.0 = w] attempt2 [where ?w0.0 = w]
      attempt3 [where ?w0.0 = w] attempt4 [where ?w0.0 = w and E = E] split: option.splits)

lemma prober_body_trace:
  assumes "seek_ok E f"
  shows "trace (snd (prober_body E f w)) = trace w @
           Attempt MoviePy # (case run_alone E f w MoviePy of Some d \<Rightarrow> [] | None \<Rightarrow>
           Attempt FFmpeg # (case run_alone E f w FFmpeg of Some d \<Rightarrow> [] | None \<Rightarrow>
           Attempt OpenCV # (case run_alone E f w OpenCV of Some d \<Rightarrow> [] | None \<Rightarrow>
           [Attempt FileSize])))"
  using assms
  by (simp add: prober_body_def Let_def attempt1 [where ?w0.0 = w] attempt2 [where ?w0.0 = w]
      attempt3 [where ?w0.0 = w] attempt4 [where ?w0.0 = w and E = E] split: option.splits)

lemma prober_body_noseek: "\<not> seek_ok E f \<Longrightarrow> prober_body E f w = (Raise IOError, w)"
  by (simp add: prober_body_def)

lemma prober_body_frame:
  "db (snd (prober_body E f w)) = db w \<and> tmpfiles (snd (prober_body E f w)) = tmpfiles w
   \<and> next_pk (snd (prober_body E f w)) = next_pk w"
  by (simp add: prober_body_def Let_def attempt1 [where ?w0.0 = w] attempt2 [where ?w0.0 = w]
      attempt3 [where ?w0.0 = w] attempt4 [where ?w0.0 = w and E = E] split: option.splits)

lemma prober_snd: "snd (get_video_duration_seconds E f w) = snd (prober_body E f w)"
  by (simp add: get_video_duration_seconds_def split: prod.splits result.splits)

lemma prober_fst: "fst (get_video_duration_seconds E f w) =
   (case fst (prober_body E f w) of Raise e \<Rightarrow> Return None | Return d \<Rightarrow> Return d)"
  by (simp add: get_video_duration_seconds_def split: prod.splits result.splits)

text \<open>
  What each strategy yields, in terms of what its library returns. For FFmpeg the
  stream that counts is the first one of kind video: every stream before it carries
  a codec type other than video.
\<close>

lemma first_video_iff:
  "first_video ss = Return (Some s) \<longleftrightarrow>
     (\<exists>pre post. ss = pre @ s # post
        \<and> (\<forall>x \<in> set pre. \<exists>t. codec_type x = Some t \<and> t \<noteq> ''video'')
        \<and> codec_type s = Some ''video'')"
proof (induction ss)
  case Nil
  then show ?case by simp
next
  case (Cons a ss)
  show ?case
  proof (cases "codec_type a")
    case None
    have "\<not> (\<exists>pre post. a # ss = pre @ s # post
        \<and> (\<forall>x \<in> set pre. \<exists>t. codec_type x = Some t \<and> t \<noteq> ''video'')
        \<and> codec_type s = Some ''video'')"
    proof
      assume "\<exists>pre post. a # ss = pre @ s # post
        \<and> (\<forall>x \<in> set pre. \<exists>t. codec_type x = Some t \<and> t \<noteq> ''video'')
        \<and> codec_type s = Some ''video''"
      then obtain pre post where p: "a # ss = pre @ s # post"
        "\<forall>x \<in> set pre. \<exists>t. codec_type x = Some t \<and> t \<noteq> ''video''"
        "codec_type s = Some ''video''" by blast
      show False
      proof (cases pre)
        case Nil
        with p None show False by simp
      next
        case (Cons b pre')
        with p None show False by auto
      qed
    qed
    with None show ?thesis by simp
  next
    case (Some t)
    show ?thesis
    proof (cases "t = ''video''")
      case True
      have "(\<exists>pre post. a # ss = pre @ s # post
        \<and> (\<forall>x \<in> set pre. \<exists>t. codec_type x = Some t \<and> t \<noteq> ''video'')
        \<and> codec_type s = Some ''video'') \<longleftrightarrow> a = s"
      proof
        assume "\<exists>pre post. a # ss = pre @ s # post
          \<and> (\<forall>x \<in> set pre. \<exists>t. codec_type x = Some t \<and> t \<noteq> ''video'')
          \<and> codec_type s = Some ''video''"
        then obtain pre post where p: "a # ss = pre @ s # post"
          "\<forall>x \<in> set pre. \<exists>t. codec_type x = Some t \<and> t \<noteq> ''video''" by blast
        show "a = s"
        proof (cases pre)
          case Nil
          with p show ?thesis by simp
        next
          case (Cons b pre')
          with p Some True show ?thesis by auto
        qed
      next
        assume "a = s"
        with Some True have "a # ss = [] @ s # ss \<and> (\<forall>x \<in> set []. \<exists>t. codec_type x = Some t \<and> t \<noteq> ''video'')
          \<and> codec_type s = Some ''video''" by simp
        then show "\<exists>pre post. a # ss = pre @ s # post
          \<and> (\<forall>x \<in> set pre. \<exists>t. codec_type x = Some t \<and> t \<noteq> ''video'')
          \<and> codec_type s = Some ''video''" by blast
      qed
      with Some True show ?thesis by auto
    next
      case False
      have "(\<exists>pre post. a # ss = pre @ s # post
        \<and> (\<forall>x \<in> set pre. \<exists>t. codec_type x = Some t \<and> t \<noteq> ''video'')
        \<and> codec_type s = Some ''video'') \<longleftrightarrow>
        (\<exists>pre post. ss = pre @ s # post
        \<and> (\<forall>x \<in> set pre. \<exists>t. codec_type x = Some t \<and> t \<noteq> ''video'')
        \<and> codec_type s = Some ''video'')"
      proof
        assume "\<exists>pre post. a # ss = pre @ s # post
          \<and> (\<forall>x \<in> set pre. \<exists>t. codec_type x = Some t \<and> t \<noteq> ''video'')
          \<and> codec_type s = Some ''video''"
        then obtain pre post where p: "a # ss = pre @ s # post"
          "\<forall>x \<in> set pre. \<exists>t. codec_type x = Some t \<and> t \<noteq> ''video''"
          "codec_type s = Some ''video''" by blast
        show "\<exists>pre post. ss = pre @ s # post
          \<and> (\<forall>x \<in> set pre. \<exists>t. codec_type x = Some t \<and> t \<noteq> ''video'')
          \<and> codec_type s = Some ''video''"
        proof (cases pre)
          case Nil
          with p Some False show ?thesis by simp
        next
          case (Cons b pre')
          with p have "ss = pre' @ s # post" "\<forall>x \<in> set pre'. \<exists>t. codec_type x = Some t \<and> t \<noteq> ''video''"
            by simp_all
          with p(3) show ?thesis by blast
        qed
      next
        assume "\<exists>pre post. ss = pre @ s # post
          \<and> (\<forall>x \<in> set pre. \<exists>t. codec_type x = Some t \<and> t \<noteq> ''video'')
          \<and> codec_type s = Some ''video''"
        then obtain pre post where p: "ss = pre @ s # post"
          "\<forall>x \<in> set pre. \<exists>t. codec_type x = Some t \<and> t \<noteq> ''video''"
          "codec_type s = Some ''video''" by blast
        with Some False have "a # ss = (a # pre) @ s # post
          \<and> (\<forall>x \<in> set (a # pre). \<exists>t. codec_type x = Some t \<and> t \<noteq> ''video'')
          \<and> codec_type s = Some ''video''" by simp
        then show "\<exists>pre post. a # ss = pre @ s # post
          \<and> (\<forall>x \<in> set pre. \<exists>t. codec_type x = Some t \<and> t \<noteq> ''video'')
          \<and> codec_type s = Some ''video''" by blast
      qed
      with Some False Cons.IH show ?thesis by simp
    qed
  qed
qed

lemma moviepy_yield_iff:
  "run_alone E f w MoviePy = Some d \<longleftrightarrow>
     (has_moviepy E \<and> VideoFileClip E (file_extension f) (chunks f) = Return (Some d) \<and> 0 < d)"
  by (auto simp: swallow_fst method1_fst moviepy_block_def split: result.splits option.splits if_splits)

lemma ffmpeg_yield_first_video:
  "run_alone E f w FFmpeg = Some d \<longleftrightarrow>
     (has_ffmpeg E \<and> (\<exists>streams s txt. ffmpeg_probe E (file_extension f) (chunks f) = Return streams
        \<and> first_video streams = Return (Some s) \<and> duration s = Some txt
        \<and> float_of_str E txt = Some d))"
  by (auto simp: swallow_fst method2_fst ffmpeg_block_def split: result.splits option.splits if_splits)

lemma ffmpeg_yield_iff:
  "run_alone E f w FFmpeg = Some d \<longleftrightarrow>
     (has_ffmpeg E \<and> (\<exists>pre s post txt.
        ffmpeg_probe E (file_extension f) (chunks f) = Return (pre @ s # post)
        \<and> (\<forall>x \<in> set pre. \<exists>t. codec_type x = Some t \<and> t \<noteq> ''video'')
        \<and> codec_type s = Some ''video'' \<and> duration s = Some txt
        \<and> float_of_str E txt = Some d))"
  unfolding ffmpeg_yield_first_video first_video_iff by blast

lemma opencv_yield_iff:
  "run_alone E f w OpenCV = Some d \<longleftrightarrow>
     (has_cv2 E \<and> (\<exists>cap. VideoCapture E (file_extension f) (chunks f) = Return cap \<and> isOpened cap
        \<and> 0 < fps cap \<and> 0 < frame_count cap \<and> d = frame_count cap / fps cap))"
  by (auto simp: swallow_fst method3_fst opencv_block_def split: result.splits if_splits)

lemma filesize_yield_iff:
  "run_alone E f w FileSize = Some d \<longleftrightarrow>
     (d = real (size_bytes f) / (1024 * 1024) \<and> 0 < d \<and> d \<le> 10)"
  by (auto simp: swallow_def method4_def Let_def)

lemma prober_events:
  assumes "seek_ok E f"
  shows "new_events w (snd (get_video_duration_seconds E f w)) =
           map Attempt (take (Suc (length (takeWhile (\<lambda>s. run_alone E f w s = None) cascade_order))) cascade_order)"
  using assms
  by (simp add: new_events_def prober_snd prober_body_trace cascade_order_def split: option.splits)

lemma prober_value:
  assumes "seek_ok E f"
  shows "fst (get_video_duration_seconds E f w) = Return (first_success (map (run_alone E f w) cascade_order))"
proof -
  have "first_success (map (run_alone E f w) cascade_order) =
          (case run_alone E f w MoviePy of Some d \<Rightarrow> Some d | None \<Rightarrow>
          (case run_alone E f w FFmpeg of Some d \<Rightarrow> Some d | None \<Rightarrow>
          (case run_alone E f w OpenCV of Some d \<Rightarrow> Some d | None \<Rightarrow>
           run_alone E f w FileSize)))"
    by (cases "run_alone E f w MoviePy"; cases "run_alone E f w FFmpeg";
        cases "run_alone E f w OpenCV"; cases "run_alone E f w FileSize")
       (simp_all add: cascade_order_def)
  with assms show ?thesis
    by (simp add: prober_fst prober_body_seek)
qed

lemmas prober_defs = get_video_duration_seconds_def prober_body_def swallow_def method1_def
  method2_def method3_def method4_def moviepy_block_def ffmpeg_block_def opencv_block_def
  file_extension_def with_temp_def mkstemp_def unlink_def emit_def Let_def startswith_def
  new_events_def

subsection \<open>The cascade\<close>

text \<open>
  Claim C5. On every upload that can be rewound, the prober tries MoviePy, FFmpeg,
  OpenCV and the file size estimate in this order and stops after the first strategy
  that yields a duration: the strategies it enters are the ones that failed, in order,
  followed by the first one that succeeded, and its result is the first duration in
  the list of the four outcomes. A strategy that raises counts as one that yields
  nothing, so the next one is entered. What each strategy yields is fixed by its
  library: MoviePy yields \<open>d\<close> exactly when the clip reports the duration \<open>d\<close> and
  \<open>d\<close> is positive; FFmpeg exactly when the first video stream of the probe has a
  duration field that parses to \<open>d\<close>; OpenCV exactly when the capture is open with
  positive frame rate and frame count and \<open>d\<close> is their quotient; the file size
  estimate exactly when \<open>d\<close> is the size in MiB and lies in \<open>(0, 10]\<close>. In particular
  a positive duration reported by MoviePy is what the prober returns, and then no
  other strategy is entered.
\<close>

theorem cascade_in_fixed_order:
  assumes "seek_ok E f"
  shows "new_events w (snd (get_video_duration_seconds E f w)) =
           map Attempt (take (Suc (length (takeWhile (\<lambda>s. run_alone E f w s = None) cascade_order)))
                             cascade_order)
       \<and> fst (get_video_duration_seconds E f w) =
           Return (first_success (map (run_alone E f w) cascade_order))
       \<and> cascade_order = [MoviePy, FFmpeg, OpenCV, FileSize]
       \<and> (\<forall>d. run_alone E f w MoviePy = Some d \<longleftrightarrow>
             (has_moviepy E \<and> VideoFileClip E (file_extension f) (chunks f) = Return (Some d) \<and> 0 < d))
       \<and> (\<forall>d. run_alone E f w FFmpeg = Some d \<longleftrightarrow>
             (has_ffmpeg E \<and> (\<exists>pre s post txt.
                ffmpeg_probe E (file_extension f) (chunks f) = Return (pre @ s # post)
                \<and> (\<forall>x \<in> set pre. \<exists>t. codec_type x = Some t \<and> t \<noteq> ''video'')
                \<and> codec_type s = Some ''video'' \<and> duration s = Some txt
                \<and> float_of_str E txt = Some d)))
       \<and> (\<forall>d. run_alone E f w OpenCV = Some d \<longleftrightarrow>
             (has_cv2 E \<and> (\<exists>cap. VideoCapture E (file_extension f) (chunks f) = Return cap
                \<and> isOpened cap \<and> 0 < fps cap \<and> 0 < frame_count cap
                \<and> d = frame_count cap / fps cap)))
       \<and> (\<forall>d. run_alone E f w FileSize = Some d \<longleftrightarrow>
             (d = real (size_bytes f) / (1024 * 1024) \<and> 0 < d \<and> d \<le> 10))
       \<and> (\<forall>d. has_moviepy E \<and> VideoFileClip E (file_extension f) (chunks f) = Return (Some d) \<and> 0 < d
             \<longrightarrow> fst (get_video_duration_seconds E f w) = Return (Some d)
                 \<and> new_events w (snd (get_video_duration_seconds E f w)) = [Attempt MoviePy])"
proof -
  have direct: "fst (get_video_duration_seconds E f w) = Return (Some d)
      \<and> new_events w (snd (get_video_duration_seconds E f w)) = [Attempt MoviePy]"
    if "has_moviepy E \<and> VideoFileClip E (file_extension f) (chunks f) = Return (Some d) \<and> 0 < d" for d
  proof -
    from that have "run_alone E f w MoviePy = Some d" by (simp only: moviepy_yield_iff)
    then show ?thesis
      using prober_events [OF assms, of w] prober_value [OF assms, of w]
      by (simp add: cascade_order_def)
  qed
  show ?thesis
    using prober_events [OF assms, of w] prober_value [OF assms, of w]
      moviepy_yield_iff [of E f w] ffmpeg_yield_iff [of E f w] opencv_yield_iff [of E f w]
      filesize_yield_iff [of E f w] direct
    by (simp only: cascade_order_def) blast
qed

theorem cascade_in_fixed_order_witness:
  "seek_ok (sample_env (Raise LibraryError) (Return [\<lparr>codec_type = Some ''audio'', duration = Some ''7.25''\<rparr>, \<lparr>codec_type = Some ''video'', duration = Some ''3.5''\<rparr>]) (Raise LibraryError) (Raise LibraryError)) sample_clip
   \<and> VideoFileClip (sample_env (Raise LibraryError) (Return [\<lparr>codec_type = Some ''audio'', duration = Some ''7.25''\<rparr>, \<lparr>codec_type = Some ''video'', duration = Some ''3.5''\<rparr>]) (Raise LibraryError) (Raise LibraryError))
        (file_extension sample_clip) (chunks sample_clip) = Raise LibraryError
   \<and> ffmpeg_probe (sample_env (Raise LibraryError) (Return [\<lparr>codec_type = Some ''audio'', duration = Some ''7.25''\<rparr>, \<lparr>codec_type = Some ''video'', duration = Some ''3.5''\<rparr>]) (Raise LibraryError) (Raise LibraryError))
        (file_extension sample_clip) (chunks sample_clip)
       = Return [\<lparr>codec_type = Some ''audio'', duration = Some ''7.25''\<rparr>, \<lparr>codec_type = Some ''video'', duration = Some ''3.5''\<rparr>]
   \<and> new_events sample_world (snd (get_video_duration_seconds
        (sample_env (Raise LibraryError) (Return [\<lparr>codec_type = Some ''audio'', duration = Some ''7.25''\<rparr>, \<lparr>codec_type = Some ''video'', duration = Some ''3.5''\<rparr>]) (Raise LibraryError) (Raise LibraryError)) sample_clip sample_world))
       = [Attempt MoviePy, Attempt FFmpeg]
   \<and> fst (get_video_duration_seconds
        (sample_env (Raise LibraryError) (Return [\<lparr>codec_type = Some ''audio'', duration = Some ''7.25''\<rparr>, \<lparr>codec_type = Some ''video'', duration = Some ''3.5''\<rparr>]) (Raise LibraryError) (Raise LibraryError)) sample_clip sample_world)
       = Return (Some 3.5)
   \<and> VideoFileClip (sample_env (Return (Some 3)) (Raise LibraryError) (Raise LibraryError) (Raise LibraryError))
        (file_extension sample_clip) (chunks sample_clip) = Return (Some 3)
   \<and> new_events sample_world (snd (get_video_duration_seconds
        (sample_env (Return (Some 3)) (Raise LibraryError) (Raise LibraryError) (Raise LibraryError)) sample_clip sample_world))
       = [Attempt MoviePy]
   \<and> fst (get_video_duration_seconds
        (sample_env (Return (Some 3)) (Raise LibraryError) (Raise LibraryError) (Raise LibraryError)) sample_clip sample_world)
       = Return (Some 3)"
proof -
  let ?a = "\<lparr>codec_type = Some ''audio'', duration = Some ''7.25''\<rparr>"
  let ?v = "\<lparr>codec_type = Some ''video'', duration = Some ''3.5''\<rparr>"
  let ?E = "sample_env (Raise LibraryError) (Return [?a, ?v]) (Raise LibraryError) (Raise LibraryError)"
  let ?M = "sample_env (Return (Some 3)) (Raise LibraryError) (Raise LibraryError) (Raise LibraryError)"
  have h: "seek_ok ?E sample_clip" and hm: "seek_ok ?M sample_clip"
    by (simp_all add: sample_env_def)
  have clipE: "VideoFileClip ?E (file_extension sample_clip) (chunks sample_clip) = Raise LibraryError"
    by (simp add: sample_env_def)
  have probeE: "ffmpeg_probe ?E (file_extension sample_clip) (chunks sample_clip) = Return ([?a] @ ?v # [])"
    by (simp add: sample_env_def)
  have libs: "has_ffmpeg ?E" "float_of_str ?E ''3.5'' = Some 3.5"
    by (simp_all add: sample_env_def)
  note T = cascade_in_fixed_order [OF h, of sample_world]
  from T clipE have y1: "run_alone ?E sample_clip sample_world MoviePy = None"
    by (cases "run_alone ?E sample_clip sample_world MoviePy") auto
  have "has_ffmpeg ?E \<and> (\<exists>pre s post txt.
                ffmpeg_probe ?E (file_extension sample_clip) (chunks sample_clip) = Return (pre @ s # post)
                \<and> (\<forall>x \<in> set pre. \<exists>t. codec_type x = Some t \<and> t \<noteq> ''video'')
                \<and> codec_type s = Some ''video'' \<and> duration s = Some txt
                \<and> float_of_str ?E txt = Some 3.5)"
    using libs probeE
    by (intro conjI exI [where x = "[?a]"] exI [where x = "?v"] exI [where x = "[]"]
        exI [where x = "''3.5''"]) simp_all
  with T have y2: "run_alone ?E sample_clip sample_world FFmpeg = Some 3.5"
    by blast
  from T have T12: "new_events sample_world (snd (get_video_duration_seconds ?E sample_clip sample_world)) =
           map Attempt (take (Suc (length (takeWhile (\<lambda>s. run_alone ?E sample_clip sample_world s = None) cascade_order)))
                             cascade_order)
       \<and> fst (get_video_duration_seconds ?E sample_clip sample_world) =
           Return (first_success (map (run_alone ?E sample_clip sample_world) cascade_order))"
    by blast
  from T12 y1 y2 have a: "new_events sample_world (snd (get_video_duration_seconds ?E sample_clip sample_world))
       = [Attempt MoviePy, Attempt FFmpeg]
     \<and> fst (get_video_duration_seconds ?E sample_clip sample_world) = Return (Some 3.5)"
    by (simp del: run_alone.simps add: cascade_order_def)
  have clipM: "VideoFileClip ?M (file_extension sample_clip) (chunks sample_clip) = Return (Some 3)"
    and hasM: "has_moviepy ?M"
    by (simp_all add: sample_env_def)
  from cascade_in_fixed_order [OF hm, of sample_world]
  have D: "has_moviepy ?M \<and> VideoFileClip ?M (file_extension sample_clip) (chunks sample_clip) = Return (Some 3)
        \<and> (0::real) < 3
      \<longrightarrow> fst (get_video_duration_seconds ?M sample_clip sample_world) = Return (Some 3)
        \<and> new_events sample_world (snd (get_video_duration_seconds ?M sample_clip sample_world)) = [Attempt MoviePy]"
    by blast
  from D clipM hasM
  have b: "fst (get_video_duration_seconds ?M sample_clip sample_world) = Return (Some 3)
      \<and> new_events sample_world (snd (get_video_duration_seconds ?M sample_clip sample_world)) = [Attempt MoviePy]"
    by simp
  from h clipE probeE a clipM b show ?thesis by simp
qed

text \<open>
  Claim C6. The prober returns on every input and never hands an exception to its
  caller; when none of the four strategies yields a duration, and when the upload
  cannot be rewound, it returns \<open>None\<close>.
\<close>

theorem prober_always_returns:
  "(\<exists>d. fst (get_video_duration_seconds E f w) = Return d)
   \<and> ((\<forall>s \<in> set cascade_order. run_alone E f w s = None) \<longrightarrow>
        fst (get_video_duration_seconds E f w) = Return None)
   \<and> (\<not> seek_ok E f \<longrightarrow> fst (get_video_duration_seconds E f w) = Return None)"
proof (cases "seek_ok E f")
  case True
  then show ?thesis
    by (simp add: prober_value cascade_order_def)
next
  case False
  then show ?thesis
    by (simp add: prober_fst prober_body_noseek)
qed

theorem prober_always_returns_witness:
  "run_alone (sample_env (Raise LibraryError) (Raise LibraryError) (Raise LibraryError) (Raise LibraryError))
        sample_blob sample_world MoviePy = None
   \<and> run_alone (sample_env (Raise LibraryError) (Raise LibraryError) (Raise LibraryError) (Raise LibraryError))
        sample_blob sample_world FFmpeg = None
   \<and> run_alone (sample_env (Raise LibraryError) (Raise LibraryError) (Raise LibraryError) (Raise LibraryError))
        sample_blob sample_world OpenCV = None
   \<and> run_alone (sample_env (Raise LibraryError) (Raise LibraryError) (Raise LibraryError) (Raise LibraryError))
        sample_blob sample_world FileSize = None
   \<and> fst (get_video_duration_seconds
        (sample_env (Raise LibraryError) (Raise LibraryError) (Raise LibraryError) (Raise LibraryError))
        sample_blob sample_world) = Return None"
proof -
  let ?E = "sample_env (Raise LibraryError) (Raise LibraryError) (Raise LibraryError) (Raise LibraryError)"
  have h: "\<forall>s \<in> set cascade_order. run_alone ?E sample_blob sample_world s = None"
    by (simp add: cascade_order_def sample_env_def sample_blob_def prober_defs)
  from h prober_always_returns [of ?E sample_blob sample_world]
  have r: "fst (get_video_duration_seconds ?E sample_blob sample_world) = Return None"
    by blast
  from h r show ?thesis
    by (simp add: cascade_order_def)
qed

text \<open>
  Claim C8. The OpenCV strategy yields a duration only when the capture was opened and
  the frame rate read from it is positive, and then the duration is the frame count
  divided by the frame rate (the code asks for a positive frame count as well).
  Whenever no opened capture with a positive frame rate is at hand the strategy yields
  nothing, and after the three library strategies have yielded nothing the prober goes
  on to the file size estimate.
\<close>

theorem frame_count_division_guarded:
  "(run_alone E f w OpenCV = Some d \<longrightarrow>
      (\<exists>cap. VideoCapture E (file_extension f) (chunks f) = Return cap \<and> isOpened cap
         \<and> 0 < fps cap \<and> 0 < frame_count cap \<and> d = frame_count cap / fps cap))
   \<and> ((\<forall>cap. VideoCapture E (file_extension f) (chunks f) = Return cap \<longrightarrow>
          \<not> (isOpened cap \<and> 0 < fps cap)) \<longrightarrow>
        run_alone E f w OpenCV = None)
   \<and> (seek_ok E f \<and> run_alone E f w MoviePy = None \<and> run_alone E f w FFmpeg = None
        \<and> run_alone E f w OpenCV = None \<longrightarrow>
        new_events w (snd (get_video_duration_seconds E f w)) =
          [Attempt MoviePy, Attempt FFmpeg, Attempt OpenCV, Attempt FileSize]
        \<and> fst (get_video_duration_seconds E f w) = Return (run_alone E f w FileSize))"
proof (intro conjI impI)
  assume "run_alone E f w OpenCV = Some d"
  then show "\<exists>cap. VideoCapture E (file_extension f) (chunks f) = Return cap \<and> isOpened cap
         \<and> 0 < fps cap \<and> 0 < frame_count cap \<and> d = frame_count cap / fps cap"
    by (auto simp: swallow_fst method3_fst opencv_block_def split: result.splits if_splits)
next
  assume "\<forall>cap. VideoCapture E (file_extension f) (chunks f) = Return cap \<longrightarrow>
          \<not> (isOpened cap \<and> 0 < fps cap)"
  then show "run_alone E f w OpenCV = None"
    by (auto simp: swallow_fst method3_fst opencv_block_def split: result.splits if_splits)
next
  assume a: "seek_ok E f \<and> run_alone E f w MoviePy = None \<and> run_alone E f w FFmpeg = None
        \<and> run_alone E f w OpenCV = None"
  then show "new_events w (snd (get_video_duration_seconds E f w)) =
          [Attempt MoviePy, Attempt FFmpeg, Attempt OpenCV, Attempt FileSize]"
    by (simp add: prober_events cascade_order_def)
  from a show "fst (get_video_duration_seconds E f w) = Return (run_alone E f w FileSize)"
    by (simp add: prober_value cascade_order_def) (cases "run_alone E f w FileSize"; simp)
qed

theorem frame_count_division_guarded_witness:
  "run_alone (sample_env (Raise LibraryError) (Raise LibraryError)
       (Return \<lparr>isOpened = True, frame_count = 90, fps = 30\<rparr>) (Raise LibraryError))
     sample_clip sample_world OpenCV = Some 3
   \<and> (\<exists>cap. VideoCapture (sample_env (Raise LibraryError) (Raise LibraryError)
       (Return \<lparr>isOpened = True, frame_count = 90, fps = 30\<rparr>) (Raise LibraryError))
         (file_extension sample_clip) (chunks sample_clip) = Return cap
       \<and> 0 < fps cap \<and> (3::real) = frame_count cap / fps cap)
   \<and> run_alone (sample_env (Raise LibraryError) (Raise LibraryError)
       (Return \<lparr>isOpened = True, frame_count = 90, fps = 0\<rparr>) (Raise LibraryError))
     sample_clip sample_world OpenCV = None
   \<and> fst (get_video_duration_seconds (sample_env (Raise LibraryError) (Raise LibraryError)
       (Return \<lparr>isOpened = True, frame_count = 90, fps = 0\<rparr>) (Raise LibraryError))
     sample_clip sample_world) = Return (Some 2)"
proof -
  let ?E = "sample_env (Raise LibraryError) (Raise LibraryError)
       (Return \<lparr>isOpened = True, frame_count = 90, fps = 30\<rparr>) (Raise LibraryError)"
  let ?Z = "sample_env (Raise LibraryError) (Raise LibraryError)
       (Return \<lparr>isOpened = True, frame_count = 90, fps = 0\<rparr>) (Raise LibraryError)"
  have y: "run_alone ?E sample_clip sample_world OpenCV = Some 3"
    by (simp add: sample_env_def sample_clip_def prober_defs)
  have z: "\<forall>cap. VideoCapture ?Z (file_extension sample_clip) (chunks sample_clip) = Return cap \<longrightarrow>
          \<not> (isOpened cap \<and> 0 < fps cap)"
    by (simp add: sample_env_def)
  have s: "seek_ok ?Z sample_clip" by (simp add: sample_env_def)
  have y1: "run_alone ?Z sample_clip sample_world MoviePy = None"
    by (simp add: sample_env_def sample_clip_def prober_defs)
  have y2: "run_alone ?Z sample_clip sample_world FFmpeg = None"
    by (simp add: sample_env_def sample_clip_def prober_defs)
  have y4: "run_alone ?Z sample_clip sample_world FileSize = Some 2"
    by (simp add: sample_env_def sample_clip_def prober_defs)
  from frame_count_division_guarded [of ?E sample_clip sample_world 3] y
  have a: "\<exists>cap. VideoCapture ?E (file_extension sample_clip) (chunks sample_clip) = Return cap
       \<and> 0 < fps cap \<and> (3::real) = frame_count cap / fps cap"
    by blast
  from frame_count_division_guarded [of ?Z sample_clip sample_world 0] z
  have b: "run_alone ?Z sample_clip sample_world OpenCV = None"
    by blast
  from frame_count_division_guarded [of ?Z sample_clip sample_world 0] s y1 y2 b y4
  have c: "fst (get_video_duration_seconds ?Z sample_clip sample_world) = Return (Some 2)"
    by simp
  from y a b c show ?thesis by blast
qed

text \<open>
  Claim C9. The file size strategy estimates the duration as the size divided by
  \<open>1024 * 1024\<close> bytes per second. The estimate is accepted exactly when it is above
  0 and at most 10 seconds, that is for sizes from 1 byte to 10 MiB; otherwise the
  strategy yields nothing, and the prober, having no strategy left, returns \<open>None\<close>.
\<close>

theorem file_size_heuristic:
  "(0 < size_bytes f \<and> size_bytes f \<le> 10 * (1024 * 1024) \<longrightarrow>
      run_alone E f w FileSize = Some (real (size_bytes f) / (1024 * 1024)))
   \<and> (\<not> (0 < size_bytes f \<and> size_bytes f \<le> 10 * (1024 * 1024)) \<longrightarrow>
      run_alone E f w FileSize = None)
   \<and> (run_alone E f w FileSize = Some d \<longrightarrow>
      d = real (size_bytes f) / (1024 * 1024) \<and> 0 < d \<and> d \<le> 10)
   \<and> (seek_ok E f \<and> run_alone E f w MoviePy = None \<and> run_alone E f w FFmpeg = None
        \<and> run_alone E f w OpenCV = None
        \<and> \<not> (0 < size_bytes f \<and> size_bytes f \<le> 10 * (1024 * 1024)) \<longrightarrow>
      fst (get_video_duration_seconds E f w) = Return None)"
proof -
  have r: "(0 < real (size_bytes f) / (1024 * 1024) \<and> real (size_bytes f) / (1024 * 1024) \<le> 10)
        = (0 < size_bytes f \<and> size_bytes f \<le> 10 * (1024 * 1024))"
    by (simp add: field_simps)
  have y: "run_alone E f w FileSize =
      (if 0 < size_bytes f \<and> size_bytes f \<le> 10 * (1024 * 1024)
       then Some (real (size_bytes f) / (1024 * 1024)) else None)"
    unfolding r [symmetric]
    by (simp add: swallow_def method4_def Let_def)
  show ?thesis
    by (simp del: run_alone.simps add: y prober_value cascade_order_def field_simps)
qed

theorem file_size_heuristic_witness:
  "0 < size_bytes sample_clip \<and> size_bytes sample_clip \<le> 10 * (1024 * 1024)
   \<and> run_alone (sample_env (Raise LibraryError) (Raise LibraryError) (Raise LibraryError) (Raise LibraryError))
        sample_clip sample_world FileSize = Some 2
   \<and> \<not> (0 < size_bytes sample_film \<and> size_bytes sample_film \<le> 10 * (1024 * 1024))
   \<and> run_alone (sample_env (Raise LibraryError) (Raise LibraryError) (Raise LibraryError) (Raise LibraryError))
        sample_film sample_world FileSize = None
   \<and> fst (get_video_duration_seconds
        (sample_env (Raise LibraryError) (Raise LibraryError) (Raise LibraryError) (Raise LibraryError))
        sample_film sample_world) = Return None"
proof -
  let ?E = "sample_env (Raise LibraryError) (Raise LibraryError) (Raise LibraryError) (Raise LibraryError)"
  have a: "0 < size_bytes sample_clip \<and> size_bytes sample_clip \<le> 10 * (1024 * 1024)"
    by (simp add: sample_clip_def)
  have b: "\<not> (0 < size_bytes sample_film \<and> size_bytes sample_film \<le> 10 * (1024 * 1024))"
    by (simp add: sample_film_def)
  have s: "seek_ok ?E sample_film" by (simp add: sample_env_def)
  have y1: "run_alone ?E sample_film sample_world MoviePy = None"
    by (simp add: sample_env_def sample_film_def prober_defs)
  have y2: "run_alone ?E sample_film sample_world FFmpeg = None"
    by (simp add: sample_env_def sample_film_def prober_defs)
  have y3: "run_alone ?E sample_film sample_world OpenCV = None"
    by (simp add: sample_env_def sample_film_def prober_defs)
  have c: "real (size_bytes sample_clip) / (1024 * 1024) = 2"
    by (simp add: sample_clip_def)
  show ?thesis
    using a b s y1 y2 y3 c
      file_size_heuristic [of sample_clip ?E sample_world 2]
      file_size_heuristic [of sample_film ?E sample_world 0]
    by simp
qed

section \<open>Properties of the ingestion view\<close>

subsection \<open>Events and the prober seen from the view\<close>

lemma new_events_append [simp]: "trace w' = trace w @ evs \<Longrightarrow> new_events w w' = evs"
  by (simp add: new_events_def)

lemma new_events_same [simp]: "new_events w w = []"
  by (simp add: new_events_def)

lemma prober_trace: "\<exists>ss. trace (snd (get_video_duration_seconds E f w)) = trace w @ map Attempt ss"
proof (cases "seek_ok E f")
  case True
  then have "trace (snd (get_video_duration_seconds E f w)) = trace w @
      map Attempt (MoviePy # (case run_alone E f w MoviePy of Some d \<Rightarrow> [] | None \<Rightarrow>
           FFmpeg # (case run_alone E f w FFmpeg of Some d \<Rightarrow> [] | None \<Rightarrow>
           OpenCV # (case run_alone E f w OpenCV of Some d \<Rightarrow> [] | None \<Rightarrow>
           [FileSize]))))"
    by (simp add: prober_snd prober_body_trace split: option.splits)
  then show ?thesis by blast
next
  case False
  then have "trace (snd (get_video_duration_seconds E f w)) = trace w @ map Attempt []"
    by (simp add: prober_snd prober_body_noseek)
  then show ?thesis by blast
qed

lemma prober_frame:
  "db (snd (get_video_duration_seconds E f w)) = db w"
  "tmpfiles (snd (get_video_duration_seconds E f w)) = tmpfiles w"
  "next_pk (snd (get_video_duration_seconds E f w)) = next_pk w"
  by (simp_all add: prober_snd prober_body_frame)

lemma prober_returns: "\<exists>d. fst (get_video_duration_seconds E f w) = Return d"
  by (simp add: prober_fst split: result.splits)

subsection \<open>The stages of the view\<close>

lemma classify_media_none:
  "classify_media E None None w = (Done (Return (Redirect ''civilian_view_reports'')), w)"
  by (simp add: classify_media_def)

lemma classify_media_image:
  "classify_media E (Some f) video_file w =
     (let c = \<lparr>file_path = TmpPath (next_tmp w) (if splitext_ext (name f) = [] then ''.tmp'' else splitext_ext (name f)),
                file_data = chunks f, model_path = ''../ai/utils/best.pt'',
                output_folder = ''../media/issues/ann_images'', conf_threshold = 0.5\<rparr>
      in (case detect_pothole_severity E c of
            Raise e \<Rightarrow> Done (Raise e)
          | Return r \<Rightarrow> if boxes r = 0 then Done (Return (Redirect ''civilian_view_reports''))
                        else Next r,
          w\<lparr>tmpfiles := (file_path c, chunks f) # tmpfiles w, next_tmp := Suc (next_tmp w),
             trace := trace w @ [Classified c (detect_pothole_severity E c)]\<rparr>))"
  by (simp add: classify_media_def save_uploaded_file_temp_def mkstemp_def emit_def Let_def
      split: result.splits)

lemma classify_media_video:
  "classify_media E None (Some f) w =
     (let c = \<lparr>file_path = TmpPath (next_tmp w) (if splitext_ext (name f) = [] then ''.tmp'' else splitext_ext (name f)),
                file_data = chunks f, model_path = ''../ai/utils/best.pt'',
                output_folder = ''../media/issues/ann_videos'', conf_threshold = 0.5\<rparr>
      in (case detect_pothole_severity E c of
            Raise e \<Rightarrow> Done (Raise e)
          | Return r \<Rightarrow> if boxes r = 0 then Done (Return (Redirect ''civilian_view_reports''))
                        else Next r,
          w\<lparr>tmpfiles := (file_path c, chunks f) # tmpfiles w, next_tmp := Suc (next_tmp w),
             trace := trace w @ [Classified c (detect_pothole_severity E c)]\<rparr>))"
  by (simp add: classify_media_def save_uploaded_file_temp_def mkstemp_def emit_def Let_def
      split: result.splits)

lemma classify_media_some:
  assumes "image_file = Some f \<or> (image_file = None \<and> video_file = Some f)"
  shows "\<exists>c. file_data c = chunks f \<and>
           classify_media E image_file video_file w =
             (case detect_pothole_severity E c of
                Raise e \<Rightarrow> Done (Raise e)
              | Return r \<Rightarrow> if boxes r = 0 then Done (Return (Redirect ''civilian_view_reports''))
                            else Next r,
              w\<lparr>tmpfiles := (file_path c, chunks f) # tmpfiles w, next_tmp := Suc (next_tmp w),
                 trace := trace w @ [Classified c (detect_pothole_severity E c)]\<rparr>)"
proof -
  from assms consider "image_file = Some f" | "image_file = None" "video_file = Some f" by blast
  then show ?thesis
  proof cases
    case 1
    show ?thesis
      unfolding 1 classify_media_image Let_def
      by (rule exI [where x = "\<lparr>file_path = TmpPath (next_tmp w) (if splitext_ext (name f) = [] then ''.tmp'' else splitext_ext (name f)),
                file_data = chunks f, model_path = ''../ai/utils/best.pt'',
                output_folder = ''../media/issues/ann_images'', conf_threshold = 0.5\<rparr>"]) simp
  next
    case 2
    show ?thesis
      unfolding 2 classify_media_video Let_def
      by (rule exI [where x = "\<lparr>file_path = TmpPath (next_tmp w) (if splitext_ext (name f) = [] then ''.tmp'' else splitext_ext (name f)),
                file_data = chunks f, model_path = ''../ai/utils/best.pt'',
                output_folder = ''../media/issues/ann_videos'', conf_threshold = 0.5\<rparr>"]) simp
  qed
qed

lemma validate_video_None: "validate_video E None w = (Next (), w)"
  by (simp add: validate_video_def)

lemma validate_video_Some:
  "validate_video E (Some f) w =
     (case fst (get_video_duration_seconds E f w) of
        Raise e \<Rightarrow> Done (Raise e)
      | Return None \<Rightarrow> Next ()
      | Return (Some d) \<Rightarrow>
          if d > 6 then Done (Return (Render ''civilian/report_issue.html'' (Some (VideoTooLong d))))
          else Next (),
      snd (get_video_duration_seconds E f w))"
  by (simp add: validate_video_def split: prod.splits result.splits option.splits)

lemma validate_video_frame:
  "db (snd (validate_video E v w)) = db w"
  "tmpfiles (snd (validate_video E v w)) = tmpfiles w"
  "next_pk (snd (validate_video E v w)) = next_pk w"
  by (cases v; simp add: validate_video_None validate_video_Some prober_frame)+

lemma validate_video_trace:
  "\<exists>ss. trace (snd (validate_video E v w)) = trace w @ map Attempt ss"
proof (cases v)
  case None
  then have "trace (snd (validate_video E v w)) = trace w @ map Attempt []"
    by (simp add: validate_video_None)
  then show ?thesis by blast
next
  case (Some f)
  then show ?thesis using prober_trace [of E f w] by (simp add: validate_video_Some)
qed

lemma validate_video_cases:
  "fst (validate_video E v w) = Next ()
   \<or> (\<exists>d. 6 < d \<and> fst (validate_video E v w) =
          Done (Return (Render ''civilian/report_issue.html'' (Some (VideoTooLong d)))))"
proof (cases v)
  case None
  then show ?thesis by (simp add: validate_video_None)
next
  case (Some f)
  obtain d where "fst (get_video_duration_seconds E f w) = Return d"
    using prober_returns by blast
  with Some show ?thesis
    by (cases d) (simp_all add: validate_video_Some)
qed

lemma classify_media_db: "db (snd (classify_media E i v w)) = db w"
proof (cases "i = None \<and> v = None")
  case True
  then show ?thesis by (simp add: classify_media_none)
next
  case False
  then obtain f where "i = Some f \<or> (i = None \<and> v = Some f)"
    by (cases i) auto
  from classify_media_some [OF this, of E w] show ?thesis by auto
qed

lemma classify_media_next_pk: "next_pk (snd (classify_media E i v w)) = next_pk w"
proof (cases "i = None \<and> v = None")
  case True
  then show ?thesis by (simp add: classify_media_none)
next
  case False
  then obtain f where "i = Some f \<or> (i = None \<and> v = Some f)"
    by (cases i) auto
  from classify_media_some [OF this, of E w] show ?thesis by auto
qed

lemma classify_media_relabel:
  "same_severity (fst (classify_media (relabel p E) i v w)) (fst (classify_media E i v w))"
proof (cases i)
  case (Some f)
  then show ?thesis
    by (simp add: classify_media_image Let_def relabel_def split: result.splits)
next
  case None
  show ?thesis
  proof (cases v)
    case (Some f)
    with None show ?thesis
      by (simp add: classify_media_video Let_def relabel_def split: result.splits)
  next
    case none: None
    with None show ?thesis by (simp add: classify_media_none)
  qed
qed

lemma save_update_fields_frame:
  "trace (snd (save_update_fields i cs w)) = trace w"
  "tmpfiles (snd (save_update_fields i cs w)) = tmpfiles w"
  by (simp_all add: save_update_fields_def)

lemma save_image_frame:
  "trace (snd (save_image E r i x w)) = trace w"
  "tmpfiles (snd (save_image E r i x w)) = tmpfiles w"
  by (auto simp: save_image_def save_update_fields_def Let_def split: option.splits)

lemma save_video_frame:
  "trace (snd (save_video E r i x w)) = trace w"
  "tmpfiles (snd (save_video E r i x w)) = tmpfiles w"
  by (auto simp: save_video_def save_update_fields_def Let_def split: option.splits)

lemma objects_create_frame:
  "trace (snd (objects_create E r w)) = trace w"
  "tmpfiles (snd (objects_create E r w)) = tmpfiles w"
  by (simp_all add: objects_create_def Let_def)

lemma save_image_cases:
  "save_image E r i x w = (b, w2) \<Longrightarrow> trace w2 = trace w \<and> tmpfiles w2 = tmpfiles w"
  using save_image_frame [of E r i x w] by simp

lemma save_video_cases:
  "save_video E r i x w = (b, w2) \<Longrightarrow> trace w2 = trace w \<and> tmpfiles w2 = tmpfiles w"
  using save_video_frame [of E r i x w] by simp

lemma objects_create_cases:
  "objects_create E r w = (b, w2) \<Longrightarrow> trace w2 = trace w \<and> tmpfiles w2 = tmpfiles w"
  using objects_create_frame [of E r w] by simp

lemma persist_body_frame:
  "trace (snd (persist_body E q t c d l r i v w)) = trace w
   \<and> tmpfiles (snd (persist_body E q t c d l r i v w)) = tmpfiles w"
  by (auto simp: persist_body_def split: prod.splits result.splits flow.splits
      dest!: objects_create_cases save_image_cases save_video_cases)

lemma persist_report_snd:
  "snd (persist_report E q t c d l r i v w) = snd (persist_body E q t c d l r i v w)"
  by (simp add: persist_report_def split: prod.splits result.splits)

lemma persist_report_frame:
  "trace (snd (persist_report E q t c d l r i v w)) = trace w"
  "tmpfiles (snd (persist_report E q t c d l r i v w)) = tmpfiles w"
  by (simp_all add: persist_report_snd persist_body_frame)

lemma persist_report_returns:
  "\<exists>resp. fst (persist_report E q t c d l r i v w) = Return resp"
  by (simp add: persist_report_def split: prod.splits result.splits)

lemma save_image_response:
  "save_image E r i x w = (Done y, w1) \<Longrightarrow>
     y = Return (Render ''civilian/report_issue.html'' (Some InvalidImageType)) \<or> (\<exists>e. y = Raise e)"
  by (auto simp: save_image_def save_update_fields_def Let_def split: option.splits if_splits)

lemma save_video_response:
  "save_video E r i x w = (Done y, w1) \<Longrightarrow>
     y = Return (Render ''civilian/report_issue.html'' (Some InvalidVideoType)) \<or> (\<exists>e. y = Raise e)"
  by (auto simp: save_video_def save_update_fields_def Let_def split: option.splits if_splits)

lemma persist_body_response:
  "fst (persist_body E q t c d l r i v w) = Return x \<Longrightarrow>
     x = Redirect ''civilian_view_reports''
     \<or> x = Render ''civilian/report_issue.html'' (Some InvalidImageType)
     \<or> x = Render ''civilian/report_issue.html'' (Some InvalidVideoType)"
  by (auto simp: persist_body_def split: prod.splits result.splits flow.splits
      dest!: save_image_response save_video_response)

lemma persist_report_response:
  "fst (persist_report E q t c d l r i v w) = Return x \<Longrightarrow>
     x = Redirect ''civilian_view_reports''
     \<or> x = Render ''civilian/report_issue.html'' (Some InvalidImageType)
     \<or> x = Render ''civilian/report_issue.html'' (Some InvalidVideoType)
     \<or> (\<exists>e. x = Render ''civilian/report_issue.html'' (Some (CreateFailed e)))"
proof (cases "fst (persist_body E q t c d l r i v w)")
  case (Raise e)
  assume "fst (persist_report E q t c d l r i v w) = Return x"
  with Raise show ?thesis
    by (auto simp: persist_report_def split: prod.splits result.splits)
next
  case (Return y)
  assume "fst (persist_report E q t c d l r i v w) = Return x"
  with Return have "x = y"
    by (auto simp: persist_report_def split: prod.splits result.splits)
  with Return persist_body_response [of E q t c d l r i v w y] show ?thesis by blast
qed

text \<open>The prober and the duration check do not depend on the detector.\<close>

lemma blocks_relabel:
  "moviepy_block (relabel p E) x y = moviepy_block E x y"
  "ffmpeg_block (relabel p E) x y = ffmpeg_block E x y"
  "opencv_block (relabel p E) x y = opencv_block E x y"
  by (simp_all add: relabel_def moviepy_block_def ffmpeg_block_def opencv_block_def
      split: result.splits option.splits)

lemma run_alone_relabel: "run_alone (relabel p E) f w s = run_alone E f w' s"
proof -
  have h: "has_moviepy (relabel p E) = has_moviepy E" "has_ffmpeg (relabel p E) = has_ffmpeg E"
    "has_cv2 (relabel p E) = has_cv2 E"
    by (simp_all add: relabel_def)
  show ?thesis
    by (cases s)
       (simp_all add: h blocks_relabel swallow_fst method1_fst method2_fst method3_fst
          method4_fst_indep [of f w w'])
qed

lemma prober_body_fst:
  "fst (prober_body E f w) =
     (if seek_ok E f
      then Return (case run_alone E f w MoviePy of Some d \<Rightarrow> Some d | None \<Rightarrow>
                   (case run_alone E f w FFmpeg of Some d \<Rightarrow> Some d | None \<Rightarrow>
                   (case run_alone E f w OpenCV of Some d \<Rightarrow> Some d | None \<Rightarrow>
                    run_alone E f w FileSize)))
      else Raise IOError)"
  by (simp add: prober_body_seek prober_body_noseek)

lemma prober_fst_relabel:
  "fst (get_video_duration_seconds (relabel p E) f w) = fst (get_video_duration_seconds E f w')"
proof -
  have s: "seek_ok (relabel p E) f = seek_ok E f" by (simp add: relabel_def)
  show ?thesis
    by (simp only: prober_fst prober_body_fst s run_alone_relabel [of p E f w _ w'])
qed

lemma validate_video_fst_relabel:
  "fst (validate_video (relabel p E) v w) = fst (validate_video E v w')"
  by (cases v) (simp_all add: validate_video_None validate_video_Some prober_fst_relabel [of p E _ w w'])

lemma objects_create_db:
  assumes "db w' = db w" and "next_pk w' = next_pk w" and "create_ok E' = create_ok E"
  shows "fst (objects_create E' r w') = fst (objects_create E r w)
       \<and> db (snd (objects_create E' r w')) = db (snd (objects_create E r w))
       \<and> next_pk (snd (objects_create E' r w')) = next_pk (snd (objects_create E r w))"
  using assms by (simp add: objects_create_def Let_def)

lemma save_update_fields_db:
  assumes "db w' = db w" and "columns x' = columns x"
  shows "fst (save_update_fields x' cs w') = fst (save_update_fields x cs w)
       \<and> db (snd (save_update_fields x' cs w')) = db (snd (save_update_fields x cs w))
       \<and> next_pk (snd (save_update_fields x' cs w')) = next_pk w'"
  using assms by (simp add: save_update_fields_def)

lemma save_image_db:
  assumes "db w' = db w" and "storage_ok E' = storage_ok E" and "columns x' = columns x"
  shows "same_columns (fst (save_image E' r' i x' w')) (fst (save_image E r i x w))
       \<and> db (snd (save_image E' r' i x' w')) = db (snd (save_image E r i x w))"
proof (cases i)
  case None
  with assms show ?thesis by (simp add: save_image_def)
next
  case (Some img)
  show ?thesis
  proof (cases "startswith (content_type img) ''image/'' \<and> storage_ok E img")
    case False
    with assms Some show ?thesis by (auto simp: save_image_def Let_def)
  next
    case True
    let ?y' = "x'\<lparr>columns := (columns x')\<lparr>image := Some (''issues/images/'' @ name img)\<rparr>,
                  attrs := (attrs x')(''annotated_image'' \<mapsto> annotated_output r')\<rparr>"
    let ?y = "x\<lparr>columns := (columns x)\<lparr>image := Some (''issues/images/'' @ name img)\<rparr>,
                  attrs := (attrs x)(''annotated_image'' \<mapsto> annotated_output r)\<rparr>"
    have c: "columns ?y' = columns ?y" using assms(3) by simp
    from save_update_fields_db [OF assms(1) c, of "[''image'']"]
    show ?thesis
      using True Some assms(2) c
      by (auto simp: save_image_def Let_def split: prod.splits result.splits)
  qed
qed

lemma save_video_db:
  assumes "db w' = db w" and "storage_ok E' = storage_ok E" and "columns x' = columns x"
  shows "same_columns (fst (save_video E' r' i x' w')) (fst (save_video E r i x w))
       \<and> db (snd (save_video E' r' i x' w')) = db (snd (save_video E r i x w))"
proof (cases i)
  case None
  with assms show ?thesis by (simp add: save_video_def)
next
  case (Some vid)
  show ?thesis
  proof (cases "startswith (content_type vid) ''video/'' \<and> storage_ok E vid")
    case False
    with assms Some show ?thesis by (auto simp: save_video_def Let_def)
  next
    case True
    let ?y' = "x'\<lparr>columns := (columns x')\<lparr>video := Some (''issues/videos/'' @ name vid)\<rparr>,
                  attrs := (attrs x')(''annotated_video'' \<mapsto> annotated_output r')\<rparr>"
    let ?y = "x\<lparr>columns := (columns x)\<lparr>video := Some (''issues/videos/'' @ name vid)\<rparr>,
                  attrs := (attrs x)(''annotated_video'' \<mapsto> annotated_output r)\<rparr>"
    have c: "columns ?y' = columns ?y" using assms(3) by simp
    from save_update_fields_db [OF assms(1) c, of "[''video'']"]
    show ?thesis
      using True Some assms(2) c
      by (auto simp: save_video_def Let_def split: prod.splits result.splits)
  qed
qed

lemma persist_body_db:
  assumes "db w' = db w" and "next_pk w' = next_pk w" and "create_ok E' = create_ok E"
    and "storage_ok E' = storage_ok E" and "severity r' = severity r"
  shows "db (snd (persist_body E' q t c d l r' i v w')) = db (snd (persist_body E q t c d l r i v w))"
proof -
  let ?row = "\<lparr>pk = 0, reporter = user q, title = t, category = c,
              description = d, location = l, status = ''pending'',
              severity_col = severity r, image = None, video = None\<rparr>"
  obtain a' w1' where a': "objects_create E' ?row w' = (a', w1')" by (cases "objects_create E' ?row w'")
  obtain a w1 where a: "objects_create E ?row w = (a, w1)" by (cases "objects_create E ?row w")
  from objects_create_db [OF assms(1,2,3), of ?row] a a'
  have oc: "a' = a" "db w1' = db w1" by simp_all
  show ?thesis
  proof (cases a)
    case (Raise e)
    with a a' oc assms(5) show ?thesis by (simp add: persist_body_def)
  next
    case (Return issue)
    obtain b' w2' where b': "save_image E' r' i issue w1' = (b', w2')" by (cases "save_image E' r' i issue w1'")
    obtain b w2 where b: "save_image E r i issue w1 = (b, w2)" by (cases "save_image E r i issue w1")
    from save_image_db [OF oc(2) assms(4), of issue issue r' i r] b b'
    have si: "same_columns b' b" "db w2' = db w2" by simp_all
    show ?thesis
    proof (cases b)
      case (Done x)
      with si(1) have "b' = Done x" by (cases b') simp_all
      with a a' oc Return b b' Done si(2) assms(5) show ?thesis by (simp add: persist_body_def)
    next
      case (Next y)
      with si(1) obtain y' where y': "b' = Next y'" "columns y' = columns y" by (cases b') simp_all
      obtain k' w3' where k': "save_video E' r' v y' w2' = (k', w3')" by (cases "save_video E' r' v y' w2'")
      obtain k w3 where k: "save_video E r v y w2 = (k, w3)" by (cases "save_video E r v y w2")
      from save_video_db [OF si(2) assms(4) y'(2), of r' v r] k k'
      have sv: "same_columns k' k" "db w3' = db w3" by simp_all
      have "snd (persist_body E' q t c d l r' i v w') = w3'"
        using a' oc Return b' y' k' assms(5) by (simp add: persist_body_def split: flow.splits)
      moreover have "snd (persist_body E q t c d l r i v w) = w3"
        using a Return b Next k by (simp add: persist_body_def split: flow.splits)
      ultimately show ?thesis using sv(2) by simp
    qed
  qed
qed

lemma persist_report_db:
  assumes "db w' = db w" and "next_pk w' = next_pk w" and "create_ok E' = create_ok E"
    and "storage_ok E' = storage_ok E" and "severity r' = severity r"
  shows "db (snd (persist_report E' q t c d l r' i v w')) = db (snd (persist_report E q t c d l r i v w))"
  by (simp only: persist_report_snd persist_body_db [OF assms])

subsection \<open>The view as a whole\<close>

lemma attached_unique: "attached req f \<Longrightarrow> attached req g \<Longrightarrow> f = g"
  by (auto simp: attached_def)

text \<open>
  Every run of the view is of one of seven kinds; each case tells the response, the
  external calls that were made and what became of the database and the temporary files.
\<close>

lemma report_issue_not_post:
  "http_method req \<noteq> ''POST'' \<Longrightarrow>
     report_issue E req w = (Return (Render ''civilian/report_issue.html'' None), w)"
  by (simp add: report_issue_def)

lemma report_issue_fields:
  "http_method req = ''POST'' \<Longrightarrow> \<not> fields_given req \<Longrightarrow>
     report_issue E req w = (Return (Render ''civilian/report_issue.html'' (Some AllFieldsRequired)), w)"
  by (simp add: report_issue_def fields_given_def Let_def)

lemma report_issue_stages:
  "http_method req = ''POST'' \<Longrightarrow> fields_given req \<Longrightarrow>
     report_issue E req w =
       (case classify_media E (FILES req ''image'') (FILES req ''video'') w of
          (Done x, w1) \<Rightarrow> (x, w1)
        | (Next result, w1) \<Rightarrow>
            (case validate_video E (FILES req ''video'') w1 of
               (Done x, w2) \<Rightarrow> (x, w2)
             | (Next u, w2) \<Rightarrow>
                 persist_report E req (strip (post_get req ''title''))
                   (strip (post_get req ''category'')) (strip (post_get req ''description''))
                   (strip (post_get req ''location'')) result
                   (FILES req ''image'') (FILES req ''video'') w2))"
  by (simp add: report_issue_def fields_given_def Let_def)

lemma report_issue_cases [consumes 1, case_names not_post fields no_media raised empty too_long persist]:
  assumes ri: "report_issue E req w = (resp, w')"
  obtains
    "http_method req \<noteq> ''POST''"
      "resp = Return (Render ''civilian/report_issue.html'' None)" "w' = w"
  | "http_method req = ''POST''" "\<not> fields_given req"
      "resp = Return (Render ''civilian/report_issue.html'' (Some AllFieldsRequired))" "w' = w"
  | "http_method req = ''POST''" "fields_given req"
      "FILES req ''image'' = None" "FILES req ''video'' = None"
      "resp = Return (Redirect ''civilian_view_reports'')" "w' = w"
  | c e f where "http_method req = ''POST''" "fields_given req" "attached req f"
      "detect_pothole_severity E c = Raise e" "resp = Raise e"
      "new_events w w' = [Classified c (Raise e)]" "db w' = db w"
      "tmpfiles w' = (file_path c, chunks f) # tmpfiles w"
  | c r f where "http_method req = ''POST''" "fields_given req" "attached req f"
      "detect_pothole_severity E c = Return r" "boxes r = 0"
      "resp = Return (Redirect ''civilian_view_reports'')"
      "new_events w w' = [Classified c (Return r)]" "db w' = db w"
      "tmpfiles w' = (file_path c, chunks f) # tmpfiles w"
  | c r f d ss where "http_method req = ''POST''" "fields_given req" "attached req f"
      "detect_pothole_severity E c = Return r" "boxes r \<noteq> 0" "6 < d"
      "resp = Return (Render ''civilian/report_issue.html'' (Some (VideoTooLong d)))"
      "new_events w w' = Classified c (Return r) # map Attempt ss" "db w' = db w"
      "tmpfiles w' = (file_path c, chunks f) # tmpfiles w"
  | c r f ss x where "http_method req = ''POST''" "fields_given req" "attached req f"
      "detect_pothole_severity E c = Return r" "boxes r \<noteq> 0"
      "resp = Return x"
      "x = Redirect ''civilian_view_reports''
       \<or> x = Render ''civilian/report_issue.html'' (Some InvalidImageType)
       \<or> x = Render ''civilian/report_issue.html'' (Some InvalidVideoType)
       \<or> (\<exists>e. x = Render ''civilian/report_issue.html'' (Some (CreateFailed e)))"
      "new_events w w' = Classified c (Return r) # map Attempt ss"
      "tmpfiles w' = (file_path c, chunks f) # tmpfiles w"
proof (cases "http_method req = ''POST''")
  case False
  with ri report_issue_not_post [of req E w] that(1) show ?thesis by simp
next
  case post: True
  show ?thesis
  proof (cases "fields_given req")
    case False
    with ri post report_issue_fields [of req E w] that(2) show ?thesis by simp
  next
    case fg: True
    note st = report_issue_stages [OF post fg, of E w]
    show ?thesis
    proof (cases "FILES req ''image'' = None \<and> FILES req ''video'' = None")
      case True
      with ri st that(3) [OF post fg] show ?thesis
        by (simp add: classify_media_none)
    next
      case False
      then obtain f where att: "FILES req ''image'' = Some f
          \<or> (FILES req ''image'' = None \<and> FILES req ''video'' = Some f)"
        by (cases "FILES req ''image''") auto
      then have att': "attached req f" by (simp add: attached_def)
      from classify_media_some [OF att, of E w] obtain c where
        cm: "classify_media E (FILES req ''image'') (FILES req ''video'') w =
             (case detect_pothole_severity E c of
                Raise e \<Rightarrow> Done (Raise e)
              | Return r \<Rightarrow> if boxes r = 0 then Done (Return (Redirect ''civilian_view_reports''))
                            else Next r,
              w\<lparr>tmpfiles := (file_path c, chunks f) # tmpfiles w, next_tmp := Suc (next_tmp w),
                 trace := trace w @ [Classified c (detect_pothole_severity E c)]\<rparr>)"
        by blast
      define w1 where "w1 = w\<lparr>tmpfiles := (file_path c, chunks f) # tmpfiles w,
          next_tmp := Suc (next_tmp w),
          trace := trace w @ [Classified c (detect_pothole_severity E c)]\<rparr>"
      have w1: "db w1 = db w" "tmpfiles w1 = (file_path c, chunks f) # tmpfiles w"
        "trace w1 = trace w @ [Classified c (detect_pothole_severity E c)]"
        by (simp_all add: w1_def)
      show ?thesis
      proof (cases "detect_pothole_severity E c")
        case (Raise e)
        with ri st cm have "resp = Raise e" "w' = w1"
          by (simp_all add: w1_def)
        with that(4) [OF post fg att' Raise] w1 Raise show ?thesis by simp
      next
        case (Return r)
        show ?thesis
        proof (cases "boxes r = 0")
          case True
          with ri st cm Return have "resp = Return (Redirect ''civilian_view_reports'')" "w' = w1"
            by (simp_all add: w1_def)
          with that(5) [OF post fg att' Return True] w1 Return show ?thesis by simp
        next
          case nz: False
          obtain fl w2 where vv: "validate_video E (FILES req ''video'') w1 = (fl, w2)"
            by (cases "validate_video E (FILES req ''video'') w1")
          from validate_video_frame [of E "FILES req ''video''" w1] vv w1
          have w2: "db w2 = db w" "tmpfiles w2 = (file_path c, chunks f) # tmpfiles w"
            by simp_all
          from validate_video_trace [of E "FILES req ''video''" w1] vv w1 obtain ss
            where tr2: "trace w2 = trace w @ Classified c (Return r) # map Attempt ss"
            using Return by auto
          from validate_video_cases [of E "FILES req ''video''" w1] vv
          consider "fl = Next ()"
            | d where "6 < d"
              "fl = Done (Return (Render ''civilian/report_issue.html'' (Some (VideoTooLong d))))"
            by auto
          then show ?thesis
          proof cases
            case 2
            with ri st cm Return nz vv
            have "resp = Return (Render ''civilian/report_issue.html'' (Some (VideoTooLong d)))"
              "w' = w2"
              by (simp_all add: w1_def)
            with that(6) [OF post fg att' Return nz 2(1)] w2 tr2 show ?thesis by simp
          next
            case 1
            let ?p = "persist_report E req (strip (post_get req ''title''))
                   (strip (post_get req ''category'')) (strip (post_get req ''description''))
                   (strip (post_get req ''location'')) r
                   (FILES req ''image'') (FILES req ''video'') w2"
            from ri st cm Return nz vv 1 have p: "?p = (resp, w')"
              by (simp add: w1_def)
            from persist_report_returns obtain x where x: "fst ?p = Return x" by blast
            with p have rx: "resp = Return x" by simp
            from persist_report_response [OF x]
            have xs: "x = Redirect ''civilian_view_reports''
               \<or> x = Render ''civilian/report_issue.html'' (Some InvalidImageType)
               \<or> x = Render ''civilian/report_issue.html'' (Some InvalidVideoType)
               \<or> (\<exists>e. x = Render ''civilian/report_issue.html'' (Some (CreateFailed e)))" .
            have "trace (snd ?p) = trace w2" "tmpfiles (snd ?p) = tmpfiles w2"
              by (rule persist_report_frame)+
            with p have "trace w' = trace w2" "tmpfiles w' = tmpfiles w2" by simp_all
            with that(7) [OF post fg att' Return nz rx xs] w2 tr2 show ?thesis by simp
          qed
        qed
      qed
    qed
  qed
qed

lemmas view_defs = report_issue_def classify_media_def validate_video_def persist_report_def
  persist_body_def save_image_def save_video_def save_update_fields_def objects_create_def
  save_uploaded_file_temp_def post_get_def strip_def is_space_def ustr_def splitext_ext_def
  column_names_def set_column_def fields_given_def

lemmas sample_defs = sample_world_def sample_env_def sample_form_def sample_photo_def
  sample_scan_def sample_post_def sample_hit_def sample_miss_def sample_clip_def sample_film_def
  sample_blob_def

subsection \<open>The claims about the view\<close>

text \<open>
  Claim C1. Whenever the detector was called during a request and returned a result
  with zero boxes, the view answers with the redirect to the reports page and the table
  of reports is as it was before: no report comes from a detection without boxes.
\<close>

theorem zero_boxes_never_persisted:
  assumes "report_issue E req w = (resp, w')"
    and "Classified c (Return r) \<in> set (new_events w w')"
    and "boxes r = 0"
  shows "resp = Return (Redirect ''civilian_view_reports'') \<and> db w' = db w"
  using assms(1)
proof (cases rule: report_issue_cases)
  case not_post
  with assms(2) show ?thesis by simp
next
  case fields
  with assms(2) show ?thesis by simp
next
  case no_media
  with assms(2) show ?thesis by simp
next
  case (raised c' e f)
  with assms(2) show ?thesis by simp
next
  case (empty c' r' f)
  then show ?thesis by simp
next
  case (too_long c' r' f d ss)
  with assms(2,3) show ?thesis by auto
next
  case (persist c' r' f ss x)
  with assms(2,3) show ?thesis by auto
qed

theorem zero_boxes_never_persisted_witness:
  "Classified \<lparr>file_path = TmpPath 0 ''.jpg'', file_data = ''JPEG'',
                model_path = ''../ai/utils/best.pt'',
                output_folder = ''../media/issues/ann_images'', conf_threshold = 0.5\<rparr>
      (Return sample_miss)
     \<in> set (new_events sample_world
          (snd (report_issue (sample_env (Raise LibraryError) (Raise LibraryError) (Raise LibraryError) (Return sample_miss))
             (sample_post [''image'' \<mapsto> sample_photo]) sample_world)))
   \<and> boxes sample_miss = 0
   \<and> fst (report_issue (sample_env (Raise LibraryError) (Raise LibraryError) (Raise LibraryError) (Return sample_miss))
             (sample_post [''image'' \<mapsto> sample_photo]) sample_world)
       = Return (Redirect ''civilian_view_reports'')
   \<and> db (snd (report_issue (sample_env (Raise LibraryError) (Raise LibraryError) (Raise LibraryError) (Return sample_miss))
             (sample_post [''image'' \<mapsto> sample_photo]) sample_world)) = db sample_world"
proof -
  let ?E = "sample_env (Raise LibraryError) (Raise LibraryError) (Raise LibraryError) (Return sample_miss)"
  let ?q = "sample_post [''image'' \<mapsto> sample_photo]"
  let ?c = "\<lparr>file_path = TmpPath 0 ''.jpg'', file_data = ''JPEG'',
                model_path = ''../ai/utils/best.pt'',
                output_folder = ''../media/issues/ann_images'', conf_threshold = 0.5\<rparr>"
  have ev: "Classified ?c (Return sample_miss) \<in> set (new_events sample_world (snd (report_issue ?E ?q sample_world)))"
    by (simp add: view_defs sample_defs mkstemp_def emit_def Let_def new_events_def)
  have z: "boxes sample_miss = 0" by (simp add: sample_miss_def)
  have p: "report_issue ?E ?q sample_world = (fst (report_issue ?E ?q sample_world), snd (report_issue ?E ?q sample_world))"
    by simp
  from zero_boxes_never_persisted [OF p ev z] ev z show ?thesis by blast
qed

text \<open>
  Claim C2 asks that the stored report holds the detector's annotated output path.
  The table has no column for it (\<^verbatim>\<open>models.py\<close> declares none) and
  \<^verbatim>\<open>save(update_fields=["image"])\<close> writes the image column only, so the path the
  view assigns to \<^verbatim>\<open>issue.annotated_image\<close> stays an attribute of the object in memory.
  The theorem states it for every request: whatever path the detector reports, the table
  after the request is the same.
\<close>

theorem annotated_output_never_stored:
  "db (snd (report_issue (relabel p E) req w)) = db (snd (report_issue E req w))"
proof (cases "http_method req = ''POST''")
  case False
  then show ?thesis by (simp add: report_issue_not_post)
next
  case post: True
  show ?thesis
  proof (cases "fields_given req")
    case False
    with post show ?thesis by (simp add: report_issue_fields)
  next
    case fg: True
    let ?i = "FILES req ''image''" and ?v = "FILES req ''video''"
    obtain fl' w1' where c': "classify_media (relabel p E) ?i ?v w = (fl', w1')"
      by (cases "classify_media (relabel p E) ?i ?v w")
    obtain fl w1 where c: "classify_media E ?i ?v w = (fl, w1)"
      by (cases "classify_media E ?i ?v w")
    from classify_media_relabel [of p E ?i ?v w] c c' have ss: "same_severity fl' fl" by simp
    from classify_media_db [of "relabel p E" ?i ?v w] classify_media_db [of E ?i ?v w] c c'
    have d1: "db w1' = db w" "db w1 = db w" by simp_all
    from classify_media_next_pk [of "relabel p E" ?i ?v w] classify_media_next_pk [of E ?i ?v w] c c'
    have n1: "next_pk w1' = next_pk w" "next_pk w1 = next_pk w" by simp_all
    note st' = report_issue_stages [OF post fg, of "relabel p E" w]
    note st = report_issue_stages [OF post fg, of E w]
    show ?thesis
    proof (cases fl)
      case (Done x)
      with ss have "fl' = Done x" by (cases fl') simp_all
      with Done st st' c c' d1 show ?thesis by simp
    next
      case (Next r)
      with ss obtain r' where r': "fl' = Next r'" "severity r' = severity r"
        by (cases fl') simp_all
      obtain g' w2' where v': "validate_video (relabel p E) ?v w1' = (g', w2')"
        by (cases "validate_video (relabel p E) ?v w1'")
      obtain g w2 where v: "validate_video E ?v w1 = (g, w2)"
        by (cases "validate_video E ?v w1")
      from validate_video_fst_relabel [of p E ?v w1' w1] v v' have gg: "g' = g" by simp
      from validate_video_frame [of "relabel p E" ?v w1'] validate_video_frame [of E ?v w1] v v' d1 n1
      have d2: "db w2' = db w" "db w2 = db w" "next_pk w2' = next_pk w" "next_pk w2 = next_pk w"
        by simp_all
      show ?thesis
      proof (cases g)
        case (Done x)
        with gg Next r' st st' c c' v v' d2 show ?thesis by simp
      next
        case nx: (Next u)
        have e: "create_ok (relabel p E) = create_ok E" "storage_ok (relabel p E) = storage_ok E"
          by (simp_all add: relabel_def)
        have "db w2' = db w2" "next_pk w2' = next_pk w2" using d2 by simp_all
        from persist_report_db [OF this e r'(2)]
        show ?thesis
          using nx gg Next r' st st' c c' v v' by simp
      qed
    qed
  qed
qed

theorem annotated_output_never_stored_witness:
  "db (snd (report_issue (sample_env (Raise LibraryError) (Raise LibraryError) (Raise LibraryError) (Return sample_hit))
         (sample_post [''image'' \<mapsto> sample_photo]) sample_world))
     = [\<lparr>pk = 1, reporter = Some 7, title = ustr ''Pothole'', category = ustr ''pothole'',
         description = ustr ''Deep hole'', location = ustr ''Main Road'', status = ''pending'',
         severity_col = ''medium'', image = Some ''issues/images/hole.jpg'', video = None\<rparr>]
   \<and> db (snd (report_issue
         (relabel ''elsewhere.png'' (sample_env (Raise LibraryError) (Raise LibraryError) (Raise LibraryError) (Return sample_hit)))
         (sample_post [''image'' \<mapsto> sample_photo]) sample_world))
     = [\<lparr>pk = 1, reporter = Some 7, title = ustr ''Pothole'', category = ustr ''pothole'',
         description = ustr ''Deep hole'', location = ustr ''Main Road'', status = ''pending'',
         severity_col = ''medium'', image = Some ''issues/images/hole.jpg'', video = None\<rparr>]
   \<and> fst (report_issue (sample_env (Raise LibraryError) (Raise LibraryError) (Raise LibraryError) (Return sample_hit))
         (sample_post [''image'' \<mapsto> sample_photo]) sample_world)
     = Return (Redirect ''civilian_view_reports'')
   \<and> annotated_output sample_hit = ''ann_images/hole_out.jpg''
   \<and> ''annotated_image'' \<notin> set column_names"
proof -
  let ?E = "sample_env (Raise LibraryError) (Raise LibraryError) (Raise LibraryError) (Return sample_hit)"
  let ?q = "sample_post [''image'' \<mapsto> sample_photo]"
  have a: "db (snd (report_issue ?E ?q sample_world))
     = [\<lparr>pk = 1, reporter = Some 7, title = ustr ''Pothole'', category = ustr ''pothole'',
         description = ustr ''Deep hole'', location = ustr ''Main Road'', status = ''pending'',
         severity_col = ''medium'', image = Some ''issues/images/hole.jpg'', video = None\<rparr>]"
    by (simp add: view_defs sample_defs mkstemp_def emit_def Let_def startswith_def)
  have b: "fst (report_issue ?E ?q sample_world) = Return (Redirect ''civilian_view_reports'')"
    by (simp add: view_defs sample_defs mkstemp_def emit_def Let_def startswith_def)
  have c: "annotated_output sample_hit = ''ann_images/hole_out.jpg''"
    by (simp add: sample_hit_def)
  have d: "''annotated_image'' \<notin> set column_names"
    by (simp add: column_names_def)
  from annotated_output_never_stored [of "''elsewhere.png''" ?E ?q sample_world] a b c d
  show ?thesis by simp
qed

text \<open>
  Claim C3, as stated, fails twice. A failing detector call is not turned into a rendered
  message: the exception leaves the view. And an error page does not mean that nothing
  was stored: an image upload of a wrong content type is refused after the report row
  has been created.
\<close>

theorem classifier_failure_counterexample:
  "new_events sample_world
      (snd (report_issue (sample_env (Raise LibraryError) (Raise LibraryError) (Raise LibraryError) (Raise LibraryError))
         (sample_post [''image'' \<mapsto> sample_photo]) sample_world))
     = [Classified \<lparr>file_path = TmpPath 0 ''.jpg'', file_data = ''JPEG'',
                     model_path = ''../ai/utils/best.pt'',
                     output_folder = ''../media/issues/ann_images'', conf_threshold = 0.5\<rparr>
          (Raise LibraryError)]
   \<and> fst (report_issue (sample_env (Raise LibraryError) (Raise LibraryError) (Raise LibraryError) (Raise LibraryError))
         (sample_post [''image'' \<mapsto> sample_photo]) sample_world) = Raise LibraryError
   \<and> fst (report_issue (sample_env (Raise LibraryError) (Raise LibraryError) (Raise LibraryError) (Return sample_hit))
         (sample_post [''image'' \<mapsto> sample_scan]) sample_world)
       = Return (Render ''civilian/report_issue.html'' (Some InvalidImageType))
   \<and> db sample_world = []
   \<and> db (snd (report_issue (sample_env (Raise LibraryError) (Raise LibraryError) (Raise LibraryError) (Return sample_hit))
         (sample_post [''image'' \<mapsto> sample_scan]) sample_world))
       = [\<lparr>pk = 1, reporter = Some 7, title = ustr ''Pothole'', category = ustr ''pothole'',
           description = ustr ''Deep hole'', location = ustr ''Main Road'', status = ''pending'',
           severity_col = ''medium'', image = None, video = None\<rparr>]"
  by (simp add: view_defs sample_defs mkstemp_def emit_def Let_def new_events_def startswith_def)

text \<open>
  Claim C3, amended. When the detector call raises, the same exception leaves
  \<^verbatim>\<open>report_issue\<close> and the request stores no report; and whenever the view renders
  the message that all fields are required or the message that the video is too long,
  the request has stored no report.
\<close>

theorem classifier_failure_propagates:
  assumes "report_issue E req w = (resp, w')"
  shows "(Classified c (Raise e) \<in> set (new_events w w') \<longrightarrow> resp = Raise e \<and> db w' = db w)
       \<and> (resp = Return (Render ''civilian/report_issue.html'' (Some AllFieldsRequired))
            \<or> resp = Return (Render ''civilian/report_issue.html'' (Some (VideoTooLong d)))
          \<longrightarrow> db w' = db w)"
  using assms
proof (cases rule: report_issue_cases)
  case not_post
  then show ?thesis by simp
next
  case fields
  then show ?thesis by simp
next
  case no_media
  then show ?thesis by simp
next
  case (raised c' e' f)
  then show ?thesis by simp
next
  case (empty c' r f)
  then show ?thesis by simp
next
  case (too_long c' r f d' ss)
  then show ?thesis by auto
next
  case (persist c' r f ss x)
  then show ?thesis by auto
qed

theorem classifier_failure_propagates_witness:
  "Classified \<lparr>file_path = TmpPath 0 ''.jpg'', file_data = ''JPEG'',
                model_path = ''../ai/utils/best.pt'',
                output_folder = ''../media/issues/ann_images'', conf_threshold = 0.5\<rparr>
      (Raise LibraryError)
     \<in> set (new_events sample_world
          (snd (report_issue (sample_env (Raise LibraryError) (Raise LibraryError) (Raise LibraryError) (Raise LibraryError))
             (sample_post [''image'' \<mapsto> sample_photo]) sample_world)))
   \<and> fst (report_issue (sample_env (Raise LibraryError) (Raise LibraryError) (Raise LibraryError) (Raise LibraryError))
         (sample_post [''image'' \<mapsto> sample_photo]) sample_world) = Raise LibraryError
   \<and> db (snd (report_issue (sample_env (Raise LibraryError) (Raise LibraryError) (Raise LibraryError) (Raise LibraryError))
         (sample_post [''image'' \<mapsto> sample_photo]) sample_world)) = db sample_world
   \<and> fst (report_issue (sample_env (Return (Some 7)) (Raise LibraryError) (Raise LibraryError) (Return sample_hit))
         (sample_post [''video'' \<mapsto> sample_clip]) sample_world)
       = Return (Render ''civilian/report_issue.html'' (Some (VideoTooLong 7)))
   \<and> db (snd (report_issue (sample_env (Return (Some 7)) (Raise LibraryError) (Raise LibraryError) (Return sample_hit))
         (sample_post [''video'' \<mapsto> sample_clip]) sample_world)) = db sample_world"
proof -
  let ?E = "sample_env (Raise LibraryError) (Raise LibraryError) (Raise LibraryError) (Raise LibraryError)"
  let ?q = "sample_post [''image'' \<mapsto> sample_photo]"
  let ?c = "\<lparr>file_path = TmpPath 0 ''.jpg'', file_data = ''JPEG'',
                model_path = ''../ai/utils/best.pt'',
                output_folder = ''../media/issues/ann_images'', conf_threshold = 0.5\<rparr>"
  let ?L = "sample_env (Return (Some 7)) (Raise LibraryError) (Raise LibraryError) (Return sample_hit)"
  let ?v = "sample_post [''video'' \<mapsto> sample_clip]"
  have ev: "Classified ?c (Raise LibraryError)
      \<in> set (new_events sample_world (snd (report_issue ?E ?q sample_world)))"
    by (simp add: view_defs sample_defs mkstemp_def emit_def Let_def new_events_def)
  have p: "report_issue ?E ?q sample_world
      = (fst (report_issue ?E ?q sample_world), snd (report_issue ?E ?q sample_world))"
    by simp
  have long: "fst (report_issue ?L ?v sample_world)
      = Return (Render ''civilian/report_issue.html'' (Some (VideoTooLong 7)))"
    by (simp add: view_defs sample_defs prober_defs)
  have q: "report_issue ?L ?v sample_world
      = (fst (report_issue ?L ?v sample_world), snd (report_issue ?L ?v sample_world))"
    by simp
  from classifier_failure_propagates [OF p, of ?c LibraryError] ev
  have a: "fst (report_issue ?E ?q sample_world) = Raise LibraryError
      \<and> db (snd (report_issue ?E ?q sample_world)) = db sample_world"
    by blast
  from classifier_failure_propagates [OF q, of _ _ 7] long
  have b: "db (snd (report_issue ?L ?v sample_world)) = db sample_world"
    by blast
  from ev a long b show ?thesis by blast
qed



text \<open>
  Claim C7 asks that no temporary file outlives its call. The prober's copies are
  deleted when their block is left, but the copy that \<^verbatim>\<open>save_uploaded_file_temp\<close>
  makes for the detector is created with \<^verbatim>\<open>delete=False\<close> and never removed: after
  every POST with the four fields given and an upload attached, that file is still there.
\<close>

theorem classification_temp_file_remains:
  assumes "http_method req = ''POST''" and "fields_given req" and "attached req f"
  shows "tmpfiles (snd (get_video_duration_seconds E v w)) = tmpfiles w
       \<and> (\<exists>p. tmpfiles (snd (report_issue E req w)) = (p, chunks f) # tmpfiles w)"
proof -
  obtain resp w' where ri: "report_issue E req w = (resp, w')"
    by (cases "report_issue E req w")
  from ri have "\<exists>p. tmpfiles w' = (p, chunks f) # tmpfiles w"
  proof (cases rule: report_issue_cases)
    case not_post
    with assms(1) show ?thesis by simp
  next
    case fields
    with assms(2) show ?thesis by simp
  next
    case no_media
    with assms(3) show ?thesis by (simp add: attached_def)
  next
    case (raised c e g)
    with attached_unique [OF assms(3), of g] show ?thesis by simp
  next
    case (empty c r g)
    with attached_unique [OF assms(3), of g] show ?thesis by simp
  next
    case (too_long c r g d ss)
    with attached_unique [OF assms(3), of g] show ?thesis by simp
  next
    case (persist c r g ss x)
    with attached_unique [OF assms(3), of g] show ?thesis by simp
  qed
  with ri show ?thesis by (simp add: prober_frame)
qed

theorem classification_temp_file_remains_witness:
  "http_method (sample_post [''image'' \<mapsto> sample_photo]) = ''POST''
   \<and> fields_given (sample_post [''image'' \<mapsto> sample_photo])
   \<and> attached (sample_post [''image'' \<mapsto> sample_photo]) sample_photo
   \<and> tmpfiles sample_world = []
   \<and> tmpfiles (snd (report_issue (sample_env (Raise LibraryError) (Raise LibraryError) (Raise LibraryError) (Return sample_hit))
         (sample_post [''image'' \<mapsto> sample_photo]) sample_world))
     = [(TmpPath 0 ''.jpg'', ''JPEG'')]"
proof -
  let ?E = "sample_env (Raise LibraryError) (Raise LibraryError) (Raise LibraryError) (Return sample_hit)"
  let ?q = "sample_post [''image'' \<mapsto> sample_photo]"
  have a: "http_method ?q = ''POST''" by (simp add: sample_post_def)
  have b: "fields_given ?q"
    by (simp add: fields_given_def sample_post_def sample_form_def post_get_def strip_def is_space_def ustr_def)
  have c: "attached ?q sample_photo" by (simp add: attached_def sample_post_def)
  have d: "tmpfiles sample_world = []" by (simp add: sample_world_def)
  from classification_temp_file_remains [OF a b c, of ?E sample_clip sample_world] d
  obtain p where p: "tmpfiles (snd (report_issue ?E ?q sample_world)) = [(p, chunks sample_photo)]"
    by auto
  have e: "fst (hd (tmpfiles (snd (report_issue ?E ?q sample_world)))) = TmpPath 0 ''.jpg''"
    by (simp add: view_defs sample_defs mkstemp_def emit_def Let_def startswith_def)
  from p e have "p = TmpPath 0 ''.jpg''" by simp
  with p a b c d show ?thesis by (simp add: sample_photo_def)
qed

text \<open>
  Claim C10, as stated, fails: the view tests the four fields after
  \<^verbatim>\<open>strip()\<close>, so a POST without media whose title is a single space, or a single
  no-break space, has four non-empty fields and yet gets the message that all fields
  are required, not the redirect.
\<close>

theorem no_media_no_report_counterexample:
  "http_method (sample_titled_post (ustr '' '')) = ''POST''
   \<and> post_get (sample_titled_post (ustr '' '')) ''title'' = [32]
   \<and> post_get (sample_titled_post (ustr '' '')) ''category'' = ustr ''pothole''
   \<and> post_get (sample_titled_post (ustr '' '')) ''description'' = ustr ''Deep hole''
   \<and> post_get (sample_titled_post (ustr '' '')) ''location'' = ustr '' Main Road ''
   \<and> FILES (sample_titled_post (ustr '' '')) ''image'' = None
   \<and> FILES (sample_titled_post (ustr '' '')) ''video'' = None
   \<and> report_issue (sample_env (Raise LibraryError) (Raise LibraryError) (Raise LibraryError) (Return sample_hit))
        (sample_titled_post (ustr '' '')) sample_world
       = (Return (Render ''civilian/report_issue.html'' (Some AllFieldsRequired)), sample_world)
   \<and> post_get (sample_titled_post [160]) ''title'' = [160]
   \<and> report_issue (sample_env (Raise LibraryError) (Raise LibraryError) (Raise LibraryError) (Return sample_hit))
        (sample_titled_post [160]) sample_world
       = (Return (Render ''civilian/report_issue.html'' (Some AllFieldsRequired)), sample_world)"
  by (simp add: report_issue_def post_get_def strip_def is_space_def ustr_def
      sample_titled_post_def sample_form_def Let_def)

text \<open>
  Claim C10, amended. A request without an image and without a video leaves the table
  of reports as it was and calls nothing, the classifier included; when it is a POST
  whose four fields are non-empty after \<^verbatim>\<open>strip()\<close>, the view answers with the
  redirect to the reports page and the world is untouched. So a report is stored
  through this view only when media is attached.
\<close>

theorem no_media_no_report:
  assumes "FILES req ''image'' = None" and "FILES req ''video'' = None"
  shows "db (snd (report_issue E req w)) = db w
       \<and> new_events w (snd (report_issue E req w)) = []
       \<and> (http_method req = ''POST'' \<and> fields_given req \<longrightarrow>
            report_issue E req w = (Return (Redirect ''civilian_view_reports''), w))"
proof -
  obtain resp w' where ri: "report_issue E req w = (resp, w')"
    by (cases "report_issue E req w")
  from ri show ?thesis
  proof (cases rule: report_issue_cases)
    case not_post
    with ri show ?thesis by simp
  next
    case fields
    with ri show ?thesis by simp
  next
    case no_media
    with ri show ?thesis by simp
  next
    case (raised c e f)
    with assms show ?thesis by (simp add: attached_def)
  next
    case (empty c r f)
    with assms show ?thesis by (simp add: attached_def)
  next
    case (too_long c r f d ss)
    with assms show ?thesis by (simp add: attached_def)
  next
    case (persist c r f ss x)
    with assms show ?thesis by (simp add: attached_def)
  qed
qed

theorem no_media_no_report_witness:
  "FILES (sample_post Map.empty) ''image'' = None \<and> FILES (sample_post Map.empty) ''video'' = None
   \<and> http_method (sample_post Map.empty) = ''POST'' \<and> fields_given (sample_post Map.empty)
   \<and> report_issue (sample_env (Raise LibraryError) (Raise LibraryError) (Raise LibraryError) (Return sample_hit))
        (sample_post Map.empty) sample_world
       = (Return (Redirect ''civilian_view_reports''), sample_world)"
proof -
  let ?E = "sample_env (Raise LibraryError) (Raise LibraryError) (Raise LibraryError) (Return sample_hit)"
  have a: "FILES (sample_post Map.empty) ''image'' = None" "FILES (sample_post Map.empty) ''video'' = None"
    by (simp_all add: sample_post_def)
  have b: "http_method (sample_post Map.empty) = ''POST''" by (simp add: sample_post_def)
  have c: "fields_given (sample_post Map.empty)"
    by (simp add: fields_given_def sample_post_def sample_form_def post_get_def strip_def is_space_def ustr_def)
  from no_media_no_report [OF a, of ?E sample_world] a b c show ?thesis by blast
qed

end
